theory Spec2Isabelle
  imports Complex_Main "HOL-Library.Word" "HOL-Library.Sublist"
begin

section \<open>JavaScript strings and the built-ins the handler calls\<close>

text \<open>
  A JavaScript string is modelled by the list of its code points. Every string method
  the program uses (\<open>split\<close>, \<open>indexOf\<close>, \<open>slice\<close>, \<open>trim\<close>, \<open>toLowerCase\<close>,
  \<open>===\<close>, \<open>parseInt\<close>, template literals) looks for ASCII characters only, so it
  behaves the same on code points as on UTF-16 code units. Header strings are decoded by
  Node as Latin-1, so their elements are below 256.
\<close>

type_synonym jsstring = "nat list"

definition js :: "string \<Rightarrow> jsstring" where
  "js s = map of_char s"

text \<open>Truthiness of a possibly undefined string: \<open>undefined\<close> and \<open>""\<close> are falsy.\<close>

fun truthy :: "jsstring option \<Rightarrow> bool" where
  "truthy None = False"
| "truthy (Some s) = (s \<noteq> [])"

text \<open>\<open>a || ""\<close> for a possibly undefined string.\<close>

fun or_empty :: "jsstring option \<Rightarrow> jsstring" where
  "or_empty None = []"
| "or_empty (Some s) = s"

text \<open>ECMAScript WhiteSpace and LineTerminator code points, as \<open>trim\<close> and
  \<open>parseInt\<close> strip them.\<close>

definition isWhiteSpace :: "nat \<Rightarrow> bool" where
  "isWhiteSpace c =
     (c = 9 \<or> c = 10 \<or> c = 11 \<or> c = 12 \<or> c = 13 \<or> c = 32 \<or> c = 160 \<or> c = 5760
      \<or> (8192 \<le> c \<and> c \<le> 8202) \<or> c = 8232 \<or> c = 8233 \<or> c = 8239 \<or> c = 8287
      \<or> c = 12288 \<or> c = 65279)"

definition trimStart :: "jsstring \<Rightarrow> jsstring" where
  "trimStart s = dropWhile isWhiteSpace s"

definition trim :: "jsstring \<Rightarrow> jsstring" where
  "trim s = rev (dropWhile isWhiteSpace (rev (dropWhile isWhiteSpace s)))"

text \<open>\<open>s.indexOf(c)\<close> for a one-character needle: the first index, or -1.\<close>

fun indexOf :: "jsstring \<Rightarrow> nat \<Rightarrow> int" where
  "indexOf [] c = - 1"
| "indexOf (x # xs) c =
     (if x = c then 0
      else (let i = indexOf xs c in if i < 0 then - 1 else i + 1))"

text \<open>\<open>s.split(c)\<close> for a one-character separator: never the empty array.\<close>

fun split_on :: "nat \<Rightarrow> jsstring \<Rightarrow> jsstring list" where
  "split_on c [] = [[]]"
| "split_on c (x # xs) =
     (if x = c then [] # split_on c xs
      else (case split_on c xs of
              [] \<Rightarrow> [[x]]
            | p # ps \<Rightarrow> (x # p) # ps))"

text \<open>\<open>toLowerCase\<close>, exact on Latin-1 code points (all that a header string holds).\<close>

definition lower_unit :: "nat \<Rightarrow> nat" where
  "lower_unit c =
     (if 65 \<le> c \<and> c \<le> 90 then c + 32
      else if 192 \<le> c \<and> c \<le> 222 \<and> c \<noteq> 215 then c + 32
      else c)"

definition toLowerCase :: "jsstring \<Rightarrow> jsstring" where
  "toLowerCase s = map lower_unit s"

text \<open>
  \<open>parseInt(s, 10)\<close>: leading white space is skipped, one sign is read, then the longest
  run of decimal digits; \<open>None\<close> is \<open>NaN\<close>. The value is the mathematical integer: the
  program only compares it against 0, 100 and 600, where rounding to a double changes
  nothing.
\<close>

definition isDigit :: "nat \<Rightarrow> bool" where
  "isDigit c = (48 \<le> c \<and> c \<le> 57)"

fun digits_value :: "nat \<Rightarrow> jsstring \<Rightarrow> nat" where
  "digits_value acc [] = acc"
| "digits_value acc (d # ds) = digits_value (10 * acc + (d - 48)) ds"

definition parseInt :: "jsstring \<Rightarrow> int option" where
  "parseInt s =
     (let t = trimStart s;
          neg = (t \<noteq> [] \<and> hd t = 45);
          u = (if t \<noteq> [] \<and> (hd t = 45 \<or> hd t = 43) then tl t else t);
          z = takeWhile isDigit u
      in if z = [] then None
         else Some (if neg then - int (digits_value 0 z) else int (digits_value 0 z)))"

text \<open>The decimal text of a number in a template literal (integers below \<open>10^21\<close>).\<close>

function digits_of :: "nat \<Rightarrow> jsstring" where
  "digits_of n = (if n < 10 then [48 + n] else digits_of (n div 10) @ [48 + n mod 10])"
  by pat_completeness auto
termination
  by (relation "measure id") auto

declare digits_of.simps [simp del]

definition number_toString :: "int option \<Rightarrow> jsstring" where
  "number_toString v =
     (case v of
        None \<Rightarrow> js ''NaN''
      | Some i \<Rightarrow>
          (if i < 0 then 45 # digits_of (nat (- i)) else digits_of (nat i)))"

subsection \<open>Buffers and UTF-8\<close>

type_synonym buffer = "8 word list"

text \<open>
  \<open>buf.toString("utf8")\<close>: a well-formed sequence gives its code point, every maximal
  ill-formed part gives U+FFFD (65533), and the byte that broke a sequence is read again.
  Under the range checks, taking the lead byte's offset and a continuation byte's offset
  from 128 is masking their payload bits.
\<close>

definition isCont :: "nat \<Rightarrow> bool" where
  "isCont b = (128 \<le> b \<and> b \<le> 191)"

fun utf8_decode :: "nat list \<Rightarrow> jsstring" where
  "utf8_decode [] = []"
| "utf8_decode (b # bs) =
     (if b < 128 then b # utf8_decode bs
      else if 194 \<le> b \<and> b \<le> 223 then
        (case bs of
           [] \<Rightarrow> [65533]
         | c # cs \<Rightarrow>
             if isCont c then ((b - 192) * 64 + (c - 128)) # utf8_decode cs
             else 65533 # utf8_decode bs)
      else if 224 \<le> b \<and> b \<le> 239 then
        (case bs of
           [] \<Rightarrow> [65533]
         | c # cs \<Rightarrow>
             if (if b = 224 then 160 else 128) \<le> c \<and> c \<le> (if b = 237 then 159 else 191) then
               (case cs of
                  [] \<Rightarrow> [65533]
                | d # ds \<Rightarrow>
                    if isCont d then
                      ((b - 224) * 4096 + (c - 128) * 64 + (d - 128)) # utf8_decode ds
                    else 65533 # utf8_decode cs)
             else 65533 # utf8_decode bs)
      else if 240 \<le> b \<and> b \<le> 244 then
        (case bs of
           [] \<Rightarrow> [65533]
         | c # cs \<Rightarrow>
             if (if b = 240 then 144 else 128) \<le> c \<and> c \<le> (if b = 244 then 143 else 191) then
               (case cs of
                  [] \<Rightarrow> [65533]
                | d # ds \<Rightarrow>
                    if isCont d then
                      (case ds of
                         [] \<Rightarrow> [65533]
                       | e # es \<Rightarrow>
                           if isCont e then
                             ((b - 240) * 262144 + (c - 128) * 4096 + (d - 128) * 64 + (e - 128))
                               # utf8_decode es
                           else 65533 # utf8_decode ds)
                    else 65533 # utf8_decode cs)
             else 65533 # utf8_decode bs)
      else 65533 # utf8_decode bs)"

definition toString_utf8 :: "buffer \<Rightarrow> jsstring" where
  "toString_utf8 buf = utf8_decode (map unat buf)"

text \<open>The UTF-8 bytes of a string of scalar values, as the client reads them off the wire.\<close>

definition isScalar :: "nat \<Rightarrow> bool" where
  "isScalar c = (c < 55296 \<or> (57344 \<le> c \<and> c < 1114112))"

definition utf8_encode_cp :: "nat \<Rightarrow> nat list" where
  "utf8_encode_cp c =
     (if c < 128 then [c]
      else if c < 2048 then [192 + c div 64, 128 + c mod 64]
      else if c < 65536 then [224 + c div 4096, 128 + (c div 64) mod 64, 128 + c mod 64]
      else [240 + c div 262144, 128 + (c div 4096) mod 64, 128 + (c div 64) mod 64,
            128 + c mod 64])"

definition utf8_encode :: "jsstring \<Rightarrow> nat list" where
  "utf8_encode s = concat (map utf8_encode_cp s)"

section \<open>Requests, responses and the platform\<close>

text \<open>The values \<open>JSON.parse\<close>, \<open>jwt.decode\<close> and the TLS socket hand back.\<close>

datatype jsvalue =
    JNull
  | JBool bool
  | JNum real
  | JStr jsstring
  | JArr "jsvalue list"
  | JObj "(jsstring \<times> jsvalue) list"

text \<open>A query parameter is a string, or an array of strings when it is repeated.\<close>

datatype qval = QStr jsstring | QArr "jsstring list"

fun join_comma :: "jsstring list \<Rightarrow> jsstring" where
  "join_comma [] = []"
| "join_comma [s] = s"
| "join_comma (s # t # r) = s @ [44] @ join_comma (t # r)"

text \<open>\<open>String(v)\<close>, as \<open>parseInt\<close> applies it to its argument.\<close>

fun qval_toString :: "qval \<Rightarrow> jsstring" where
  "qval_toString (QStr s) = s"
| "qval_toString (QArr ss) = join_comma ss"

fun qtruthy :: "qval option \<Rightarrow> bool" where
  "qtruthy None = False"
| "qtruthy (Some (QStr s)) = (s \<noteq> [])"
| "qtruthy (Some (QArr ss)) = True"

text \<open>
  What the request stream emits, in order. The promise of \<open>readBody\<close> settles at the
  first \<open>end\<close> or \<open>error\<close>; a stream that emits neither leaves it pending.
\<close>

datatype event = StreamData buffer | StreamEnd | StreamError jsstring

datatype connection =
    PlainSocket
  | TlsSocket "jsstring option" "(jsstring \<times> jsvalue) list option"

record request =
  req_method :: jsstring
  req_path :: jsstring
  req_url :: jsstring
  req_headers :: "jsstring \<rightharpoonup> jsstring"
  req_rawHeaders :: "jsstring list"
  req_query :: "jsstring \<rightharpoonup> qval"
  req_events :: "event list"
  req_is_json :: bool
  req_fresh :: bool
  req_hostname :: jsstring
  req_ip :: jsstring
  req_ips :: "jsstring list"
  req_protocol :: jsstring
  req_subdomains :: "jsstring list"
  req_socket :: connection

text \<open>
  \<open>req_headers\<close> is Node's parsed header object (lower-case names), \<open>req_rawHeaders\<close>
  its alternating name/value array, \<open>req_is_json\<close> the truth of
  \<open>ctx.is("application/json")\<close>. Koa's \<open>ctx.get(field)\<close> reads the parsed object
  under the lower-cased name and gives \<open>""\<close> for a missing header.
\<close>

definition ctx_get :: "request \<Rightarrow> jsstring \<Rightarrow> jsstring" where
  "ctx_get req field =
     (let f = toLowerCase field in
      if f = js ''referer'' \<or> f = js ''referrer'' then
        (if truthy (req_headers req (js ''referrer'')) then or_empty (req_headers req (js ''referrer''))
         else or_empty (req_headers req (js ''referer'')))
      else or_empty (req_headers req f))"

record echo_document =
  e_path :: jsstring
  e_headers :: "jsstring \<rightharpoonup> jsstring option"
  e_method :: jsstring
  e_body :: jsstring
  e_cookies :: "jsstring \<rightharpoonup> jsstring"
  e_fresh :: bool
  e_hostname :: jsstring
  e_ip :: jsstring
  e_ips :: "jsstring list"
  e_protocol :: jsstring
  e_query :: "jsstring \<rightharpoonup> qval"
  e_subdomains :: "jsstring list"
  e_xhr :: bool
  e_os_hostname :: jsstring
  e_servername :: jsstring
  e_clientCertificate :: "(jsstring \<times> jsvalue) list option"
  e_env :: "(jsstring \<rightharpoonup> jsstring) option"
  e_json :: "jsvalue option"
  e_jwt :: "jsvalue option"

text \<open>
  An optional field of the echo object is \<open>None\<close> while the handler has not set it. A
  header value is \<open>None\<close> where the handler stored \<open>undefined\<close>.
\<close>

datatype resp_body =
    BodyNull
  | BodyString jsstring
  | BodyObject "(jsstring \<times> jsvalue) list"
  | BodyEcho echo_document

text \<open>
  The response as the middleware writes it: \<open>res_status\<close> is the last value assigned to
  \<open>ctx.status\<close> (\<open>None\<close>: never assigned, the framework's default applies),
  \<open>res_body\<close> the last value assigned to \<open>ctx.body\<close>, \<open>res_type\<close> the last value
  assigned to \<open>ctx.type\<close>, \<open>res_headers\<close> the \<open>ctx.set\<close> calls in order.
\<close>

record response =
  res_status :: "nat option"
  res_body :: "resp_body option"
  res_type :: "qval option"
  res_headers :: "(jsstring \<times> jsstring) list"

datatype log_entry =
    AccessLog jsstring jsstring nat nat
  | WarnLog jsstring
  | RequestLog echo_document

type_synonym observation = "(jsstring \<times> jsstring) list \<times> nat"

text \<open>
  The state one request runs in: the response, the log lines written, the observations
  of the duration histogram (labels and measured time), the echo objects constructed and
  the timers awaited.
\<close>

record app_state =
  st_res :: response
  st_log :: "log_entry list"
  st_histogram :: "observation list"
  st_echo :: "echo_document list"
  st_sleeps :: "int list"

datatype fs_entry = File buffer | Directory

text \<open>
  What the program takes from outside: the environment and the file system read at
  startup, and the library calls whose code is not the program's. \<open>JSON_parse\<close> gives
  \<open>None\<close> where \<open>JSON.parse\<close> throws; \<open>jwt_decode\<close> gives \<open>Inl\<close> where \<open>decode\<close>
  throws; \<open>createGunzip\<close> maps the events of the request stream to those of the stream
  piped through gunzip; \<open>ctx_status\<close> is the framework's reading of \<open>ctx.status\<close>;
  \<open>RegExp\<close> gives \<open>None\<close> where the constructor throws.
\<close>

record platform =
  process_env :: "jsstring \<rightharpoonup> jsstring"
  fs :: "jsstring \<rightharpoonup> fs_entry"
  os_hostname :: jsstring
  JSON_parse :: "jsstring \<Rightarrow> jsvalue option"
  jwt_decode :: "jsstring \<Rightarrow> jsstring + jsvalue"
  createGunzip :: "event list \<Rightarrow> event list"
  ctx_status :: "response \<Rightarrow> nat"
  RegExp :: "jsstring \<Rightarrow> (jsstring \<Rightarrow> bool) option"
  register_metrics :: "observation list \<Rightarrow> jsstring"
  register_contentType :: jsstring

datatype 'a promise = Pending | Rejected jsstring | Resolved 'a

text \<open>\<open>process.env.NAME || fallback\<close>.\<close>

definition env_or :: "platform \<Rightarrow> jsstring \<Rightarrow> jsstring \<Rightarrow> jsstring" where
  "env_or P name fallback =
     (if truthy (process_env P name) then or_empty (process_env P name) else fallback)"

section \<open>The echo handler\<close>

definition MAX_BODY_SIZE :: "platform \<Rightarrow> int option" where
  "MAX_BODY_SIZE P = parseInt (env_or P (js ''MAX_BODY_SIZE'') (js ''1048576''))"

text \<open>\<open>MAX_BODY_SIZE > 0\<close> and \<open>size > MAX_BODY_SIZE\<close>; both are false for \<open>NaN\<close>.\<close>

fun positive :: "int option \<Rightarrow> bool" where
  "positive None = False"
| "positive (Some m) = (0 < m)"

fun above :: "nat \<Rightarrow> int option \<Rightarrow> bool" where
  "above n None = False"
| "above n (Some m) = (m < int n)"

subsection \<open>readBody\<close>

record reader =
  rd_chunks :: "buffer list"
  rd_size :: nat
  rd_exceeded :: bool

definition reader_init :: reader where
  "reader_init = \<lparr>rd_chunks = [], rd_size = 0, rd_exceeded = False\<rparr>"

definition on_data :: "int option \<Rightarrow> reader \<Rightarrow> buffer \<Rightarrow> reader" where
  "on_data m r chunk =
     (let sz = rd_size r + length chunk;
          ex = (if \<not> rd_exceeded r \<and> positive m \<and> above sz m then True else rd_exceeded r)
      in \<lparr>rd_chunks = (if \<not> ex then rd_chunks r @ [chunk] else rd_chunks r),
          rd_size = sz,
          rd_exceeded = ex\<rparr>)"

definition too_large_message :: "int option \<Rightarrow> jsstring" where
  "too_large_message m = js ''Body exceeds max size of '' @ number_toString m @ js '' bytes''"

definition on_end :: "int option \<Rightarrow> reader \<Rightarrow> jsstring promise" where
  "on_end m r =
     (if rd_exceeded r then Rejected (too_large_message m)
      else Resolved (toString_utf8 (concat (rd_chunks r))))"

text \<open>The listeners run over the events: the reader at settlement and the promise.\<close>

fun read_events :: "int option \<Rightarrow> reader \<Rightarrow> event list \<Rightarrow> reader \<times> jsstring promise" where
  "read_events m r [] = (r, Pending)"
| "read_events m r (StreamData chunk # es) = read_events m (on_data m r chunk) es"
| "read_events m r (StreamEnd # es) = (r, on_end m r)"
| "read_events m r (StreamError msg # es) = (r, Rejected msg)"

definition body_stream :: "platform \<Rightarrow> request \<Rightarrow> event list" where
  "body_stream P req =
     (if ctx_get req (js ''content-encoding'') = js ''gzip''
      then createGunzip P (req_events req)
      else req_events req)"

definition readBody :: "platform \<Rightarrow> request \<Rightarrow> jsstring promise" where
  "readBody P req = snd (read_events (MAX_BODY_SIZE P) reader_init (body_stream P req))"

subsection \<open>parseCookies and rebuildHeaders\<close>

text \<open>
  \<open>obj[key] = v\<close> on an object made by \<open>{}\<close>, for a value that is a string or
  \<open>undefined\<close>. The key \<open>__proto__\<close> is an accessor the object inherits from
  \<open>Object.prototype\<close>, and its setter ignores a value that is no object: nothing is
  stored. Under every other key the value becomes a property of the object.
\<close>

definition assign_property :: "(jsstring \<rightharpoonup> 'v) \<Rightarrow> jsstring \<Rightarrow> 'v \<Rightarrow> (jsstring \<rightharpoonup> 'v)" where
  "assign_property obj key v = (if key = js ''__proto__'' then obj else obj(key \<mapsto> v))"

text \<open>One turn of the loop of \<open>parseCookies\<close>: \<open>61\<close> is \<open>=\<close>, \<open>59\<close> is \<open>;\<close>.\<close>

definition cookie_step :: "(jsstring \<rightharpoonup> jsstring) \<Rightarrow> jsstring \<Rightarrow> (jsstring \<rightharpoonup> jsstring)" where
  "cookie_step cookies pair =
     (let idx = indexOf pair 61 in
      if idx > 0
      then assign_property cookies (trim (take (nat idx) pair)) (trim (drop (nat idx + 1) pair))
      else cookies)"

definition parseCookies :: "jsstring option \<Rightarrow> (jsstring \<rightharpoonup> jsstring)" where
  "parseCookies header =
     (if \<not> truthy header then Map.empty
      else foldl cookie_step Map.empty (split_on 59 (or_empty header)))"

text \<open>The loop of \<open>rebuildHeaders\<close>, two elements a turn; a name with no value after it
  is assigned \<open>undefined\<close>.\<close>

fun rebuild_loop ::
  "(jsstring \<rightharpoonup> jsstring option) \<Rightarrow> jsstring list \<Rightarrow> (jsstring \<rightharpoonup> jsstring option)" where
  "rebuild_loop headers [] = headers"
| "rebuild_loop headers [k] = assign_property headers k None"
| "rebuild_loop headers (k # v # rest) = rebuild_loop (assign_property headers k (Some v)) rest"

definition rebuildHeaders :: "jsstring list \<Rightarrow> (jsstring \<rightharpoonup> jsstring option)" where
  "rebuildHeaders rawHeaders = rebuild_loop Map.empty rawHeaders"

subsection \<open>The middleware returned by echoHandler\<close>

record echo_config =
  echoBackToClient :: bool
  overrideResponseBody :: "jsstring option"
  preserveHeaderCase :: bool
  includeEnvVars :: bool
  jwtHeader :: "jsstring option"
  logIgnorePath :: "(jsstring \<Rightarrow> bool) option"
  logWithoutNewline :: bool
  logger_enabled :: bool

text \<open>\<open>logger_enabled\<close> is the \<open>enabled\<close> option the pino logger was made with: a
  disabled logger writes nothing.\<close>

definition logger_write :: "bool \<Rightarrow> log_entry \<Rightarrow> app_state \<Rightarrow> app_state" where
  "logger_write enabled entry st =
     (if enabled then st\<lparr>st_log := st_log st @ [entry]\<rparr> else st)"

definition set_status :: "nat \<Rightarrow> app_state \<Rightarrow> app_state" where
  "set_status code st = st\<lparr>st_res := (st_res st)\<lparr>res_status := Some code\<rparr>\<rparr>"

definition set_body :: "resp_body \<Rightarrow> app_state \<Rightarrow> app_state" where
  "set_body b st = st\<lparr>st_res := (st_res st)\<lparr>res_body := Some b\<rparr>\<rparr>"

definition set_type :: "qval \<Rightarrow> app_state \<Rightarrow> app_state" where
  "set_type t st = st\<lparr>st_res := (st_res st)\<lparr>res_type := Some t\<rparr>\<rparr>"

definition ctx_set :: "jsstring \<Rightarrow> jsstring \<Rightarrow> app_state \<Rightarrow> app_state" where
  "ctx_set name v st =
     st\<lparr>st_res := (st_res st)\<lparr>res_headers := res_headers (st_res st) @ [(name, v)]\<rparr>\<rparr>"

text \<open>
  The status Koa answers with, read from what the middleware wrote. Every path of this
  program assigns \<open>ctx.status\<close> before it assigns \<open>ctx.body\<close>, and Koa's \<open>body\<close>
  setter looks at the status it finds: given \<open>null\<close> it sets 204 unless the status
  is one of the empty ones (204, 205, 304); given anything else it sets 200 where no
  status was assigned. A response with no body assigned keeps the status assigned, 404
  where there is none.
\<close>

definition response_status :: "response \<Rightarrow> nat" where
  "response_status r =
     (case res_body r of
        None \<Rightarrow> (case res_status r of None \<Rightarrow> 404 | Some code \<Rightarrow> code)
      | Some body \<Rightarrow>
          (if body = BodyNull then
             (case res_status r of
                None \<Rightarrow> 204
              | Some code \<Rightarrow> (if code = 204 \<or> code = 205 \<or> code = 304 then code else 204))
           else (case res_status r of None \<Rightarrow> 200 | Some code \<Rightarrow> code)))"

fun socket_servername :: "connection \<Rightarrow> jsstring" where
  "socket_servername PlainSocket = []"
| "socket_servername (TlsSocket servername cert) = or_empty servername"

definition build_echo :: "platform \<Rightarrow> echo_config \<Rightarrow> request \<Rightarrow> jsstring \<Rightarrow> echo_document" where
  "build_echo P config req body =
     \<lparr>e_path = req_path req,
      e_headers =
        (if preserveHeaderCase config then rebuildHeaders (req_rawHeaders req)
         else (\<lambda>k. map_option Some (req_headers req k))),
      e_method = req_method req,
      e_body = body,
      e_cookies = parseCookies (Some (ctx_get req (js ''cookie''))),
      e_fresh = req_fresh req,
      e_hostname = req_hostname req,
      e_ip = req_ip req,
      e_ips = req_ips req,
      e_protocol = req_protocol req,
      e_query = req_query req,
      e_subdomains = req_subdomains req,
      e_xhr = (toLowerCase (ctx_get req (js ''x-requested-with'')) = js ''xmlhttprequest''),
      e_os_hostname = os_hostname P,
      e_servername = socket_servername (req_socket req),
      e_clientCertificate = None,
      e_env = None,
      e_json = None,
      e_jwt = None\<rparr>"

text \<open>Only a TLS socket has \<open>getPeerCertificate\<close>; it may give nothing, or an object
  with no keys.\<close>

fun attach_certificate :: "connection \<Rightarrow> echo_document \<Rightarrow> echo_document" where
  "attach_certificate PlainSocket echo = echo"
| "attach_certificate (TlsSocket servername None) echo = echo"
| "attach_certificate (TlsSocket servername (Some cert)) echo =
     (if cert \<noteq> [] then echo\<lparr>e_clientCertificate := Some cert\<rparr> else echo)"

definition attach_env :: "platform \<Rightarrow> echo_config \<Rightarrow> echo_document \<Rightarrow> echo_document" where
  "attach_env P config echo =
     (if includeEnvVars config then echo\<lparr>e_env := Some (process_env P)\<rparr> else echo)"

definition attach_json ::
  "platform \<Rightarrow> echo_config \<Rightarrow> request \<Rightarrow> jsstring \<Rightarrow> echo_document \<times> app_state
     \<Rightarrow> echo_document \<times> app_state" where
  "attach_json P config req body es =
     (if req_is_json req then
        (case JSON_parse P body of
           Some v \<Rightarrow> ((fst es)\<lparr>e_json := Some v\<rparr>, snd es)
         | None \<Rightarrow>
             (fst es,
              logger_write (logger_enabled config)
                (WarnLog (js ''Invalid JSON body with Content-Type: application/json'')) (snd es)))
      else es)"

text \<open>The token is the last of the parts \<open>split(" ")\<close> gives; \<open>decode\<close> stands in no
  \<open>try\<close>, so where it throws the handler's promise rejects.\<close>

definition attach_jwt ::
  "platform \<Rightarrow> echo_config \<Rightarrow> request \<Rightarrow> echo_document \<Rightarrow> echo_document promise" where
  "attach_jwt P config req echo =
     (if truthy (jwtHeader config) then
        (let token = ctx_get req (or_empty (jwtHeader config)) in
         if token = [] then Resolved (echo\<lparr>e_jwt := Some JNull\<rparr>)
         else (case jwt_decode P (last (split_on 32 token)) of
                 Inl err \<Rightarrow> Rejected err
               | Inr v \<Rightarrow> Resolved (echo\<lparr>e_jwt := Some v\<rparr>)))
      else Resolved echo)"

text \<open>\<open>ctx.get(name) || ctx.query[name]\<close>: the header when it is not empty, else the
  query parameter, which may be missing.\<close>

definition header_or_query :: "request \<Rightarrow> jsstring \<Rightarrow> qval option" where
  "header_or_query req name =
     (let h = ctx_get req name in if h \<noteq> [] then Some (QStr h) else req_query req name)"

definition status_override :: "request \<Rightarrow> nat option" where
  "status_override req =
     (case header_or_query req (js ''x-set-response-status-code'') of
        None \<Rightarrow> None
      | Some v \<Rightarrow>
          (if qtruthy (Some v) then
             (case parseInt (qval_toString v) of
                None \<Rightarrow> None
              | Some code \<Rightarrow> (if 100 \<le> code \<and> code < 600 then Some (nat code) else None))
           else None))"

definition apply_status :: "request \<Rightarrow> app_state \<Rightarrow> app_state" where
  "apply_status req st =
     (case status_override req of None \<Rightarrow> st | Some code \<Rightarrow> set_status code st)"

definition delayMs :: "request \<Rightarrow> int option" where
  "delayMs req =
     (case header_or_query req (js ''x-set-response-delay-ms'') of
        None \<Rightarrow> parseInt (js ''0'')
      | Some v \<Rightarrow> parseInt (if qtruthy (Some v) then qval_toString v else js ''0''))"

definition apply_delay :: "request \<Rightarrow> app_state \<Rightarrow> app_state" where
  "apply_delay req st =
     (case delayMs req of
        None \<Rightarrow> st
      | Some d \<Rightarrow> (if 0 < d then st\<lparr>st_sleeps := st_sleeps st @ [d]\<rparr> else st))"

definition send_body ::
  "echo_config \<Rightarrow> request \<Rightarrow> jsstring \<Rightarrow> echo_document \<Rightarrow> app_state \<Rightarrow> app_state" where
  "send_body config req body echo st =
     (if \<not> echoBackToClient config then set_body BodyNull st
      else if req_query req (js ''response_body_only'') = Some (QStr (js ''true''))
      then set_body (BodyString body) st
      else set_body (BodyEcho echo) st)"

definition apply_type :: "request \<Rightarrow> app_state \<Rightarrow> app_state" where
  "apply_type req st =
     (case header_or_query req (js ''x-set-response-content-type'') of
        None \<Rightarrow> st
      | Some v \<Rightarrow> (if qtruthy (Some v) then set_type v st else st))"

definition log_request :: "echo_config \<Rightarrow> request \<Rightarrow> echo_document \<Rightarrow> app_state \<Rightarrow> app_state" where
  "log_request config req echo st =
     (case logIgnorePath config of
        None \<Rightarrow> logger_write (logger_enabled config) (RequestLog echo) st
      | Some test \<Rightarrow>
          (if \<not> test (req_path req) then logger_write (logger_enabled config) (RequestLog echo) st
           else st))"

text \<open>From the response overrides to the request log, on the finished echo object,
  which \<open>st_echo\<close> records.\<close>

definition respond ::
  "echo_config \<Rightarrow> request \<Rightarrow> jsstring \<Rightarrow> echo_document \<Rightarrow> app_state \<Rightarrow> app_state" where
  "respond config req body echo st =
     log_request config req echo
       (apply_type req
         (send_body config req body echo
           (apply_delay req
             (apply_status req (st\<lparr>st_echo := st_echo st @ [echo]\<rparr>)))))"

definition echoHandler ::
  "platform \<Rightarrow> echo_config \<Rightarrow> request \<Rightarrow> app_state \<Rightarrow> app_state promise" where
  "echoHandler P config req st =
     (if truthy (overrideResponseBody config) then
        Resolved (set_body (BodyString (or_empty (overrideResponseBody config))) st)
      else
        (case readBody P req of
           Pending \<Rightarrow> Pending
         | Rejected msg \<Rightarrow>
             Resolved (set_body (BodyObject [(js ''error'', JStr msg)]) (set_status 413 st))
         | Resolved body \<Rightarrow>
             (let echo0 =
                    attach_env P config
                      (attach_certificate (req_socket req) (build_echo P config req body));
                  es = attach_json P config req body (echo0, st)
              in case attach_jwt P config req (fst es) of
                   Pending \<Rightarrow> Pending
                 | Rejected err \<Rightarrow> Rejected err
                 | Resolved echo \<Rightarrow> Resolved (respond config req body echo (snd es)))))"

section \<open>The application: CORS, access log, metrics, echo\<close>

subsection \<open>metrics.ts\<close>

text \<open>A destructuring default applies only where the variable is not set at all.\<close>

definition env_default :: "platform \<Rightarrow> jsstring \<Rightarrow> jsstring \<Rightarrow> jsstring" where
  "env_default P name fallback =
     (case process_env P name of None \<Rightarrow> fallback | Some v \<Rightarrow> v)"

definition PROMETHEUS_WITH_PATH :: "platform \<Rightarrow> bool" where
  "PROMETHEUS_WITH_PATH P =
     (env_default P (js ''PROMETHEUS_WITH_PATH'') (js ''false'') = js ''true'')"

definition PROMETHEUS_WITH_METHOD :: "platform \<Rightarrow> bool" where
  "PROMETHEUS_WITH_METHOD P =
     (env_default P (js ''PROMETHEUS_WITH_METHOD'') (js ''true'') = js ''true'')"

definition PROMETHEUS_WITH_STATUS :: "platform \<Rightarrow> bool" where
  "PROMETHEUS_WITH_STATUS P =
     (env_default P (js ''PROMETHEUS_WITH_STATUS'') (js ''true'') = js ''true'')"

definition labelNames :: "platform \<Rightarrow> jsstring list" where
  "labelNames P =
     (if PROMETHEUS_WITH_PATH P then [js ''path''] else [])
     @ (if PROMETHEUS_WITH_METHOD P then [js ''method''] else [])
     @ (if PROMETHEUS_WITH_STATUS P then [js ''status''] else [])"

definition metricsEndpoint :: "platform \<Rightarrow> app_state \<Rightarrow> app_state promise" where
  "metricsEndpoint P st =
     Resolved
       (set_body (BodyString (register_metrics P (st_histogram st)))
         (ctx_set (js ''Content-Type'') (register_contentType P) st))"

definition labels_of :: "platform \<Rightarrow> request \<Rightarrow> app_state \<Rightarrow> (jsstring \<times> jsstring) list" where
  "labels_of P req st =
     (if PROMETHEUS_WITH_PATH P then [(js ''path'', req_path req)] else [])
     @ (if PROMETHEUS_WITH_METHOD P then [(js ''method'', req_method req)] else [])
     @ (if PROMETHEUS_WITH_STATUS P
        then [(js ''status'', number_toString (Some (int (ctx_status P (st_res st)))))]
        else [])"

text \<open>\<open>elapsed\<close> is the time the timer measures between \<open>startTimer()\<close> and
  \<open>end(labels)\<close>.\<close>

definition metricsMiddleware ::
  "platform \<Rightarrow> request \<Rightarrow> nat \<Rightarrow> (app_state \<Rightarrow> app_state promise) \<Rightarrow> app_state
     \<Rightarrow> app_state promise" where
  "metricsMiddleware P req elapsed next st =
     (case next st of
        Pending \<Rightarrow> Pending
      | Rejected err \<Rightarrow> Rejected err
      | Resolved st' \<Rightarrow>
          Resolved (st'\<lparr>st_histogram := st_histogram st' @ [(labels_of P req st', elapsed)]\<rparr>))"

subsection \<open>app.ts\<close>

record app_config =
  DISABLE_REQUEST_LOGS :: bool
  LOG_IGNORE_PATH :: "(jsstring \<Rightarrow> bool) option"
  CORS_ORIGIN :: "jsstring option"
  CORS_METHODS :: "jsstring option"
  CORS_HEADERS :: "jsstring option"
  CORS_CREDENTIALS :: "jsstring option"
  PROMETHEUS_ENABLED :: bool
  PROMETHEUS_PATH :: jsstring
  echo_options :: echo_config

text \<open>The override file is read once: \<open>existsSync\<close> holds for a file and for a
  directory, \<open>readFileSync\<close> throws on a directory.\<close>

definition overrideBody :: "platform \<Rightarrow> jsstring option promise" where
  "overrideBody P =
     (let OVERRIDE_FILE = process_env P (js ''OVERRIDE_RESPONSE_BODY_FILE_PATH'') in
      if truthy OVERRIDE_FILE then
        (case fs P (or_empty OVERRIDE_FILE) of
           None \<Rightarrow> Resolved None
         | Some Directory \<Rightarrow> Rejected (js ''EISDIR'')
         | Some (File buf) \<Rightarrow> Resolved (Some (toString_utf8 buf)))
      else Resolved None)"

definition logIgnore :: "platform \<Rightarrow> (jsstring \<Rightarrow> bool) option promise" where
  "logIgnore P =
     (let pat = process_env P (js ''LOG_IGNORE_PATH'') in
      if truthy pat then
        (case RegExp P (or_empty pat) of
           None \<Rightarrow> Rejected (js ''SyntaxError'')
         | Some r \<Rightarrow> Resolved (Some r))
      else Resolved None)"

definition env_is :: "platform \<Rightarrow> jsstring \<Rightarrow> jsstring \<Rightarrow> bool" where
  "env_is P name v = (process_env P name = Some v)"

definition createApp :: "platform \<Rightarrow> app_config promise" where
  "createApp P =
     (case logIgnore P of
        Pending \<Rightarrow> Pending
      | Rejected err \<Rightarrow> Rejected err
      | Resolved ignore \<Rightarrow>
          (case overrideBody P of
             Pending \<Rightarrow> Pending
           | Rejected err \<Rightarrow> Rejected err
           | Resolved override \<Rightarrow>
               Resolved
                 \<lparr>DISABLE_REQUEST_LOGS = env_is P (js ''DISABLE_REQUEST_LOGS'') (js ''true''),
                  LOG_IGNORE_PATH = ignore,
                  CORS_ORIGIN = process_env P (js ''CORS_ALLOW_ORIGIN''),
                  CORS_METHODS = process_env P (js ''CORS_ALLOW_METHODS''),
                  CORS_HEADERS = process_env P (js ''CORS_ALLOW_HEADERS''),
                  CORS_CREDENTIALS = process_env P (js ''CORS_ALLOW_CREDENTIALS''),
                  PROMETHEUS_ENABLED = env_is P (js ''PROMETHEUS_ENABLED'') (js ''true''),
                  PROMETHEUS_PATH = env_or P (js ''PROMETHEUS_METRICS_PATH'') (js ''/metrics''),
                  echo_options =
                    \<lparr>echoBackToClient = \<not> env_is P (js ''ECHO_BACK_TO_CLIENT'') (js ''false''),
                     overrideResponseBody = override,
                     preserveHeaderCase = env_is P (js ''PRESERVE_HEADER_CASE'') (js ''true''),
                     includeEnvVars = env_is P (js ''ECHO_INCLUDE_ENV_VARS'') (js ''true''),
                     jwtHeader = process_env P (js ''JWT_HEADER''),
                     logIgnorePath = ignore,
                     logWithoutNewline = env_is P (js ''LOG_WITHOUT_NEWLINE'') (js ''true''),
                     logger_enabled = \<not> env_is P (js ''DISABLE_REQUEST_LOGS'') (js ''true'')\<rparr>\<rparr>))"

type_synonym handler = "app_state \<Rightarrow> app_state promise"

definition cors_headers :: "app_config \<Rightarrow> app_state \<Rightarrow> app_state" where
  "cors_headers app st =
     (let st1 = ctx_set (js ''Access-Control-Allow-Origin'') (or_empty (CORS_ORIGIN app)) st;
          st2 = (if truthy (CORS_METHODS app)
                 then ctx_set (js ''Access-Control-Allow-Methods'') (or_empty (CORS_METHODS app)) st1
                 else st1);
          st3 = (if truthy (CORS_HEADERS app)
                 then ctx_set (js ''Access-Control-Allow-Headers'') (or_empty (CORS_HEADERS app)) st2
                 else st2)
      in if truthy (CORS_CREDENTIALS app)
         then ctx_set (js ''Access-Control-Allow-Credentials'') (or_empty (CORS_CREDENTIALS app)) st3
         else st3)"

definition cors_middleware :: "app_config \<Rightarrow> request \<Rightarrow> handler \<Rightarrow> handler" where
  "cors_middleware app req next st =
     (if req_method req = js ''OPTIONS'' then Resolved (set_status 204 (cors_headers app st))
      else next (cors_headers app st))"

text \<open>\<open>ms\<close> is the difference of the two \<open>Date.now()\<close> readings.\<close>

definition access_log_middleware ::
  "platform \<Rightarrow> app_config \<Rightarrow> request \<Rightarrow> nat \<Rightarrow> handler \<Rightarrow> handler" where
  "access_log_middleware P app req ms next st =
     (case next st of
        Pending \<Rightarrow> Pending
      | Rejected err \<Rightarrow> Rejected err
      | Resolved st' \<Rightarrow>
          Resolved
            (case LOG_IGNORE_PATH app of
               None \<Rightarrow>
                 logger_write True
                   (AccessLog (req_method req) (req_url req) (ctx_status P (st_res st')) ms) st'
             | Some test \<Rightarrow>
                 (if \<not> test (req_path req)
                  then logger_write True
                         (AccessLog (req_method req) (req_url req) (ctx_status P (st_res st')) ms) st'
                  else st')))"

definition prometheus_middleware ::
  "platform \<Rightarrow> app_config \<Rightarrow> request \<Rightarrow> nat \<Rightarrow> handler \<Rightarrow> handler" where
  "prometheus_middleware P app req elapsed next st =
     (if req_path req = PROMETHEUS_PATH app \<and> req_method req = js ''GET''
      then metricsEndpoint P st
      else metricsMiddleware P req elapsed next st)"

text \<open>The middleware stack in the order \<open>createApp\<close> installs it; a middleware that is
  not installed passes the request on.\<close>

definition app_callback ::
  "platform \<Rightarrow> app_config \<Rightarrow> nat \<Rightarrow> nat \<Rightarrow> request \<Rightarrow> handler" where
  "app_callback P app ms elapsed req =
     (if truthy (CORS_ORIGIN app) then cors_middleware app req else (\<lambda>next. next))
       ((if \<not> DISABLE_REQUEST_LOGS app then access_log_middleware P app req ms else (\<lambda>next. next))
         ((if PROMETHEUS_ENABLED app then prometheus_middleware P app req elapsed
           else (\<lambda>next. next))
           (echoHandler P (echo_options app) req)))"

text \<open>A request arrives at a fresh response; the histogram is the process's.\<close>

definition fresh_state :: "observation list \<Rightarrow> app_state" where
  "fresh_state hist =
     \<lparr>st_res = \<lparr>res_status = None, res_body = None, res_type = None, res_headers = []\<rparr>,
      st_log = [], st_histogram = hist, st_echo = [], st_sleeps = []\<rparr>"

section \<open>Notions the properties are stated with\<close>

text \<open>A total size is within the limit \<open>m\<close> when the limit is off (\<open>NaN\<close>, zero or
  negative) or the size does not pass it.\<close>

definition within_limit :: "int option \<Rightarrow> nat \<Rightarrow> bool" where
  "within_limit m n = (\<not> (positive m \<and> above n m))"

text \<open>The chunks a reader that has counted \<open>n\<close> bytes keeps of those still to come:
  all up to the first one that takes the total past the limit.\<close>

fun kept :: "int option \<Rightarrow> nat \<Rightarrow> buffer list \<Rightarrow> buffer list" where
  "kept m n [] = []"
| "kept m n (c # cs) =
     (if within_limit m (n + length c) then c # kept m (n + length c) cs else [])"

definition reader_inv :: "int option \<Rightarrow> reader \<Rightarrow> bool" where
  "reader_inv m r = (rd_exceeded r = (\<not> within_limit m (rd_size r)))"

section \<open>Concrete inputs\<close>

text \<open>A platform whose libraries answer in the simplest way: \<open>JSON.parse\<close> knows the
  text \<open>{"a":1}\<close>, \<open>decode\<close> gives \<open>null\<close>, gunzip passes the events on, the status
  read is the assigned one or 200.\<close>

definition ex_JSON_parse :: "jsstring \<Rightarrow> jsvalue option" where
  "ex_JSON_parse s =
     (if s = [123, 34, 97, 34, 58, 49, 125] then Some (JObj [([97], JNum 1)]) else None)"

definition ex_ctx_status :: "response \<Rightarrow> nat" where
  "ex_ctx_status r = (case res_status r of None \<Rightarrow> 200 | Some c \<Rightarrow> c)"

definition ex_platform :: "(jsstring \<rightharpoonup> jsstring) \<Rightarrow> (jsstring \<rightharpoonup> fs_entry) \<Rightarrow> platform" where
  "ex_platform env files =
     \<lparr>process_env = env,
      fs = files,
      os_hostname = js ''echo-1'',
      JSON_parse = ex_JSON_parse,
      jwt_decode = (\<lambda>token. Inr JNull),
      createGunzip = (\<lambda>es. es),
      ctx_status = ex_ctx_status,
      RegExp = (\<lambda>pat. Some (\<lambda>s. False)),
      register_metrics = (\<lambda>h. js ''# metrics''),
      register_contentType = js ''text/plain''\<rparr>"

definition ex_request ::
  "jsstring \<Rightarrow> jsstring \<Rightarrow> (jsstring \<rightharpoonup> jsstring) \<Rightarrow> (jsstring \<rightharpoonup> qval) \<Rightarrow> event list \<Rightarrow> request" where
  "ex_request m p hs q es =
     \<lparr>req_method = m,
      req_path = p,
      req_url = p,
      req_headers = hs,
      req_rawHeaders = [],
      req_query = q,
      req_events = es,
      req_is_json = False,
      req_fresh = False,
      req_hostname = js ''localhost'',
      req_ip = js ''::1'',
      req_ips = [],
      req_protocol = js ''http'',
      req_subdomains = [],
      req_socket = PlainSocket\<rparr>"

definition ex_config :: "bool \<Rightarrow> jsstring option \<Rightarrow> echo_config" where
  "ex_config echoBack override =
     \<lparr>echoBackToClient = echoBack,
      overrideResponseBody = override,
      preserveHeaderCase = False,
      includeEnvVars = False,
      jwtHeader = None,
      logIgnorePath = None,
      logWithoutNewline = False,
      logger_enabled = False\<rparr>"

text \<open>The echo objects a run of the handler has built, none where it did not return.\<close>

definition built_echo :: "app_state promise \<Rightarrow> echo_document list" where
  "built_echo p = (case p of Resolved st \<Rightarrow> st_echo st | _ \<Rightarrow> [])"


text \<open>The status a run of a handler is answered with, where it returns.\<close>

definition answer_of :: "app_state promise \<Rightarrow> nat promise" where
  "answer_of p =
     (case p of
        Pending \<Rightarrow> Pending
      | Rejected err \<Rightarrow> Rejected err
      | Resolved st \<Rightarrow> Resolved (response_status (st_res st)))"

text \<open>The body a run of a handler leaves assigned, where it returns.\<close>

definition body_of :: "app_state promise \<Rightarrow> resp_body option promise" where
  "body_of p =
     (case p of
        Pending \<Rightarrow> Pending
      | Rejected err \<Rightarrow> Rejected err
      | Resolved st \<Rightarrow> Resolved (res_body (st_res st)))"

text \<open>
  \<open>decode\<close> is reached and throws: a JWT header is configured, the request carries a
  value under it, and the library throws on the token.
\<close>

definition decode_throws :: "platform \<Rightarrow> echo_config \<Rightarrow> request \<Rightarrow> bool" where
  "decode_throws P config req =
     (truthy (jwtHeader config) \<and> ctx_get req (or_empty (jwtHeader config)) \<noteq> []
      \<and> isl (jwt_decode P (last (split_on 32 (ctx_get req (or_empty (jwtHeader config)))))))"

text \<open>
  The conditions under which the handler is said to return: the override answers, or
  the promise of \<open>readBody\<close> settles and, where it resolves, \<open>decode\<close> does not
  throw.
\<close>

definition handler_returns :: "platform \<Rightarrow> echo_config \<Rightarrow> request \<Rightarrow> bool" where
  "handler_returns P config req =
     (truthy (overrideResponseBody config)
      \<or> (case readBody P req of
            Pending \<Rightarrow> False
          | Rejected msg \<Rightarrow> True
          | Resolved body \<Rightarrow> \<not> decode_throws P config req))"

text \<open>
  The histogram of the process after a run that started with the histogram \<open>h\<close>: that
  of the state the run returned, and \<open>h\<close> where the run returned none, since the one
  write to the histogram, \<open>end(labels)\<close>, stands after \<open>await next()\<close>.
\<close>

definition histogram_after :: "observation list \<Rightarrow> app_state promise \<Rightarrow> observation list" where
  "histogram_after h p = (case p of Resolved st \<Rightarrow> st_histogram st | _ \<Rightarrow> h)"

text \<open>
  A cookie pair as the amended claim C6 words it: the pair is split at its first \<open>=\<close>
  (code point 61) and gives the trimmed text before it as key and the trimmed text after
  it as value; a pair with no \<open>=\<close>, or with nothing before its first \<open>=\<close>, gives
  nothing.
\<close>

definition cookie_pair :: "jsstring \<Rightarrow> (jsstring \<times> jsstring) option" where
  "cookie_pair pair =
     (if 61 \<in> set pair \<and> takeWhile (\<lambda>c. c \<noteq> 61) pair \<noteq> []
      then Some (trim (takeWhile (\<lambda>c. c \<noteq> 61) pair), trim (tl (dropWhile (\<lambda>c. c \<noteq> 61) pair)))
      else None)"

text \<open>Joining the pieces of a split with the separator between them.\<close>

fun join_with :: "nat \<Rightarrow> jsstring list \<Rightarrow> jsstring" where
  "join_with c [] = []"
| "join_with c [p] = p"
| "join_with c (p # q # ps) = p @ [c] @ join_with c (q # ps)"

text \<open>One request served by the application that \<open>createApp\<close> makes of the platform's
  environment; nothing is served where \<open>createApp\<close> throws.\<close>

definition serve :: "platform \<Rightarrow> nat \<Rightarrow> nat \<Rightarrow> request \<Rightarrow> handler" where
  "serve P ms elapsed req st =
     (case createApp P of
        Pending \<Rightarrow> Pending
      | Rejected err \<Rightarrow> Rejected err
      | Resolved app \<Rightarrow> app_callback P app ms elapsed req st)"

section \<open>The body reader\<close>

lemma reader_inv_init: "reader_inv m reader_init"
  by (cases m) (auto simp: reader_inv_def reader_init_def within_limit_def)

lemma above_mono: "above n m \<Longrightarrow> n \<le> n' \<Longrightarrow> above n' m"
  by (cases m) auto

lemma reader_inv_on_data: "reader_inv m r \<Longrightarrow> reader_inv m (on_data m r c)"
  by (auto simp: reader_inv_def on_data_def within_limit_def Let_def
           dest: above_mono[where n'="rd_size r + length c"])

lemma rd_size_on_data: "rd_size (on_data m r c) = rd_size r + length c"
  by (simp add: on_data_def Let_def)

lemma read_events_data:
  "read_events m r (map StreamData cs @ es) = read_events m (foldl (on_data m) r cs) es"
  by (induction cs arbitrary: r) auto

lemma rd_size_foldl: "rd_size (foldl (on_data m) r cs) = rd_size r + length (concat cs)"
  by (induction cs arbitrary: r) (auto simp: rd_size_on_data)

lemma reader_inv_foldl: "reader_inv m r \<Longrightarrow> reader_inv m (foldl (on_data m) r cs)"
  by (induction cs arbitrary: r) (auto simp: reader_inv_on_data)

lemma rd_exceeded_foldl:
  "rd_exceeded (foldl (on_data m) reader_init cs) = (\<not> within_limit m (length (concat cs)))"
  using reader_inv_foldl[OF reader_inv_init, of m cs]
  by (simp add: reader_inv_def rd_size_foldl reader_init_def)

lemma rd_chunks_foldl_exceeded:
  "rd_exceeded r \<Longrightarrow> rd_chunks (foldl (on_data m) r cs) = rd_chunks r"
  by (induction cs arbitrary: r) (auto simp: on_data_def Let_def)

lemma rd_chunks_foldl:
  "reader_inv m r \<Longrightarrow> \<not> rd_exceeded r \<Longrightarrow>
   rd_chunks (foldl (on_data m) r cs) = rd_chunks r @ kept m (rd_size r) cs"
proof (induction cs arbitrary: r)
  case Nil
  then show ?case by simp
next
  case (Cons c cs)
  show ?case
  proof (cases "within_limit m (rd_size r + length c)")
    case True
    have 1: "\<not> rd_exceeded (on_data m r c)"
      using True Cons.prems by (auto simp: on_data_def Let_def within_limit_def)
    have 2: "rd_chunks (on_data m r c) = rd_chunks r @ [c]"
      using True Cons.prems by (auto simp: on_data_def Let_def within_limit_def)
    show ?thesis
      using Cons.IH[OF reader_inv_on_data[OF Cons.prems(1)] 1] True 2
      by (simp add: rd_size_on_data)
  next
    case False
    have 1: "rd_exceeded (on_data m r c)"
      using False Cons.prems by (auto simp: on_data_def Let_def within_limit_def)
    have 2: "rd_chunks (on_data m r c) = rd_chunks r"
      using False Cons.prems by (auto simp: on_data_def Let_def within_limit_def)
    show ?thesis
      using rd_chunks_foldl_exceeded[OF 1, of m cs] False 2 by simp
  qed
qed

lemma digits_value_append:
  "digits_value acc (xs @ ys) = digits_value (digits_value acc xs) ys"
  by (induction xs arbitrary: acc) auto

lemma digits_value_digits_of: "digits_value 0 (digits_of n) = n"
proof (induction n rule: digits_of.induct)
  case (1 n)
  show ?case
  proof (cases "n < 10")
    case True
    then show ?thesis by (subst digits_of.simps) simp
  next
    case False
    then show ?thesis using 1 by (subst digits_of.simps) (simp add: digits_value_append)
  qed
qed

lemma digits_of_isDigit: "d \<in> set (digits_of n) \<Longrightarrow> isDigit d"
proof (induction n arbitrary: d rule: digits_of.induct)
  case (1 n)
  show ?case
  proof (cases "n < 10")
    case True
    then show ?thesis using 1(2) by (subst (asm) digits_of.simps) (simp add: isDigit_def)
  next
    case False
    have "n mod 10 < 10" by simp
    then show ?thesis
      using 1 False by (subst (asm) (2) digits_of.simps) (auto simp: isDigit_def)
  qed
qed

lemma digits_of_nonempty: "digits_of n \<noteq> []"
  by (subst digits_of.simps) simp

lemma kept_take:
  "within_limit m n \<Longrightarrow>
   \<exists>k\<le>length cs. kept m n cs = take k cs
      \<and> within_limit m (n + length (concat (take k cs)))
      \<and> (k < length cs \<longrightarrow> \<not> within_limit m (n + length (concat (take (Suc k) cs))))"
proof (induction cs arbitrary: n)
  case Nil
  then show ?case by simp
next
  case (Cons c cs)
  show ?case
  proof (cases "within_limit m (n + length c)")
    case True
    from Cons.IH[OF True] obtain k where k: "k \<le> length cs" "kept m (n + length c) cs = take k cs"
      "within_limit m (n + length c + length (concat (take k cs)))"
      "k < length cs \<longrightarrow> \<not> within_limit m (n + length c + length (concat (take (Suc k) cs)))"
      by blast
    show ?thesis
      by (rule exI[where x="Suc k"]) (use k True in \<open>simp add: add.assoc\<close>)
  next
    case False
    show ?thesis
      by (rule exI[where x=0]) (use False Cons.prems in simp)
  qed
qed

lemma within_limit_mono: "within_limit m n' \<Longrightarrow> n \<le> n' \<Longrightarrow> within_limit m n"
  by (cases m) (auto simp: within_limit_def)

lemma parseInt_digits_of: "parseInt (digits_of n) = Some (int n)"
proof -
  have d: "\<forall>d\<in>set (digits_of n). isDigit d" using digits_of_isDigit by blast
  have ne: "digits_of n \<noteq> []" by (rule digits_of_nonempty)
  have hd: "isDigit (hd (digits_of n))" using d ne by (cases "digits_of n") auto
  have nws: "\<not> isWhiteSpace (hd (digits_of n))" using hd by (auto simp: isDigit_def isWhiteSpace_def)
  have t: "trimStart (digits_of n) = digits_of n" using ne nws
    by (cases "digits_of n") (auto simp: trimStart_def)
  have s: "hd (digits_of n) \<noteq> 45 \<and> hd (digits_of n) \<noteq> 43" using hd by (auto simp: isDigit_def)
  have tw: "takeWhile isDigit (digits_of n) = digits_of n" using d by (simp add: takeWhile_eq_all_conv)
  show ?thesis by (simp add: parseInt_def Let_def t tw ne s digits_value_digits_of)
qed

lemma readBody_too_large:
  assumes s: "body_stream P req = map StreamData cs @ StreamEnd # rest"
    and m: "MAX_BODY_SIZE P = Some m" "0 < m" "m < int (length (concat cs))"
  shows "readBody P req = Rejected (too_large_message (Some m))"
proof -
  have "\<not> within_limit (Some m) (length (concat cs))" using m by (simp add: within_limit_def)
  then show ?thesis using s m
    by (simp add: readBody_def read_events_data on_end_def rd_exceeded_foldl)
qed

lemma MAX_BODY_SIZE_example:
  "MAX_BODY_SIZE (ex_platform [js ''MAX_BODY_SIZE'' \<mapsto> js ''4''] files) = Some 4"
  by (simp add: MAX_BODY_SIZE_def ex_platform_def env_or_def js_def parseInt_def trimStart_def
        isWhiteSpace_def isDigit_def Let_def)

lemma MAX_BODY_SIZE_default: "MAX_BODY_SIZE (ex_platform Map.empty files) = Some 1048576"
  by (simp add: MAX_BODY_SIZE_def ex_platform_def env_or_def js_def parseInt_def trimStart_def
        isWhiteSpace_def isDigit_def Let_def)

lemma ctx_get_example_empty: "ctx_get (ex_request m p Map.empty q es) f = []"
  by (simp add: ctx_get_def ex_request_def Let_def)

lemma body_stream_example: "body_stream (ex_platform env files) (ex_request m p Map.empty q es) = es"
  by (simp add: body_stream_def ctx_get_example_empty js_def) (simp add: ex_request_def)

section \<open>UTF-8: decoding what was encoded\<close>

lemma decode1: "b < 128 \<Longrightarrow> utf8_decode (b # bs) = b # utf8_decode bs"
  by simp

lemma decode2:
  "194 \<le> b \<Longrightarrow> b \<le> 223 \<Longrightarrow> isCont x \<Longrightarrow>
   utf8_decode (b # x # bs) = ((b - 192) * 64 + (x - 128)) # utf8_decode bs"
  by simp

lemma decode3:
  "224 \<le> b \<Longrightarrow> b \<le> 239 \<Longrightarrow> (if b = 224 then 160 else 128) \<le> x \<Longrightarrow>
   x \<le> (if b = 237 then 159 else 191) \<Longrightarrow> isCont y \<Longrightarrow>
   utf8_decode (b # x # y # bs) = ((b - 224) * 4096 + (x - 128) * 64 + (y - 128)) # utf8_decode bs"
  by simp

lemma decode4:
  "240 \<le> b \<Longrightarrow> b \<le> 244 \<Longrightarrow> (if b = 240 then 144 else 128) \<le> x \<Longrightarrow>
   x \<le> (if b = 244 then 143 else 191) \<Longrightarrow> isCont y \<Longrightarrow> isCont z \<Longrightarrow>
   utf8_decode (b # x # y # z # bs)
     = ((b - 240) * 262144 + (x - 128) * 4096 + (y - 128) * 64 + (z - 128)) # utf8_decode bs"
  by simp


lemma decode_encode_cp:
  assumes sc: "isScalar c"
  shows "utf8_decode (utf8_encode_cp c @ bs) = c # utf8_decode bs"
proof -
  define d where "d = c mod 64"
  define q where "q = c div 64"
  define y where "y = q mod 64"
  define p where "p = q div 64"
  define x where "x = p mod 64"
  define a where "a = p div 64"
  have c: "c = q * 64 + d" "d < 64" by (simp_all add: d_def q_def)
  have q: "q = p * 64 + y" "y < 64" by (simp_all add: y_def p_def)
  have p: "p = a * 64 + x" "x < 64" by (simp_all add: x_def a_def)
  have p': "c div 4096 = p" by (simp add: p_def q_def div_mult2_eq)
  have a': "c div 262144 = a" by (simp add: a_def p_def q_def div_mult2_eq)
  consider "c < 128" | "128 \<le> c" "c < 2048" | "2048 \<le> c" "c < 65536" | "65536 \<le> c"
    by linarith
  then show ?thesis
  proof cases
    case 1
    then show ?thesis by (simp add: utf8_encode_cp_def)
  next
    case 2
    have e: "utf8_encode_cp c = [192 + q, 128 + d]" using 2 by (simp add: utf8_encode_cp_def q_def d_def)
    have r: "194 \<le> 192 + q" "192 + q \<le> 223" "isCont (128 + d)" using 2 c by (auto simp: isCont_def)
    show ?thesis unfolding e using decode2[OF r, of bs] c by simp
  next
    case 3
    have e: "utf8_encode_cp c = [224 + p, 128 + y, 128 + d]"
      using 3 by (simp add: utf8_encode_cp_def p' y_def q_def d_def)
    have pb: "p < 16" using 3 c q by linarith
    have lo: "p = 0 \<Longrightarrow> 32 \<le> y" using 3 c q by linarith
    have hi: "p = 13 \<Longrightarrow> y < 32" using 3 sc c q unfolding isScalar_def by linarith
    have r: "224 \<le> 224 + p" "224 + p \<le> 239"
        "(if 224 + p = 224 then 160 else 128) \<le> 128 + y"
        "128 + y \<le> (if 224 + p = 237 then 159 else 191)" "isCont (128 + d)"
      using pb lo hi c q by (auto simp: isCont_def)
    have v: "p * 4096 + y * 64 + d = c" using c q by simp
    show ?thesis unfolding e using decode3[OF r, of bs] v by simp
  next
    case 4
    have s: "c < 1114112" using 4 sc unfolding isScalar_def by auto
    have e: "utf8_encode_cp c = [240 + a, 128 + x, 128 + y, 128 + d]"
      using 4 by (simp add: utf8_encode_cp_def a' p' x_def y_def q_def d_def)
    have ab: "a \<le> 4" using s c q p by linarith
    have lo: "a = 0 \<Longrightarrow> 16 \<le> x" using 4 c q p by linarith
    have hi: "a = 4 \<Longrightarrow> x < 16" using s c q p by linarith
    have r: "240 \<le> 240 + a" "240 + a \<le> 244"
        "(if 240 + a = 240 then 144 else 128) \<le> 128 + x"
        "128 + x \<le> (if 240 + a = 244 then 143 else 191)" "isCont (128 + y)" "isCont (128 + d)"
      using ab lo hi c q p by (auto simp: isCont_def)
    have v: "a * 262144 + x * 4096 + y * 64 + d = c" using c q p by simp
    show ?thesis unfolding e using decode4[OF r, of bs] v by simp
  qed
qed

lemma decode_encode: "list_all isScalar s \<Longrightarrow> utf8_decode (utf8_encode s) = s"
  by (induction s) (simp_all add: utf8_encode_def decode_encode_cp)

lemma decode_ascii: "list_all (\<lambda>b. b < 128) bs \<Longrightarrow> utf8_decode bs = bs"
  by (induction bs) simp_all

section \<open>The steps of the echo handler\<close>

lemma kept_all: "within_limit m (n + length (concat cs)) \<Longrightarrow> kept m n cs = cs"
proof (induction cs arbitrary: n)
  case Nil
  then show ?case by simp
next
  case (Cons c cs)
  have w: "within_limit m (n + length c)"
    using Cons.prems by (rule within_limit_mono) simp
  have "kept m (n + length c) cs = cs"
    using Cons.prems by (intro Cons.IH) (simp add: add.assoc)
  then show ?case using w by simp
qed

lemma readBody_within:
  assumes s: "body_stream P req = map StreamData cs @ StreamEnd # rest"
    and l: "within_limit (MAX_BODY_SIZE P) (length (concat cs))"
  shows "readBody P req = Resolved (toString_utf8 (concat cs))"
proof -
  let ?m = "MAX_BODY_SIZE P"
  have ne: "\<not> rd_exceeded (foldl (on_data ?m) reader_init cs)"
    using l by (simp add: rd_exceeded_foldl)
  have "rd_chunks (foldl (on_data ?m) reader_init cs) = rd_chunks reader_init @ kept ?m (rd_size reader_init) cs"
    by (rule rd_chunks_foldl[OF reader_inv_init]) (simp add: reader_init_def)
  then have ch: "rd_chunks (foldl (on_data ?m) reader_init cs) = cs"
    using l by (simp add: reader_init_def kept_all)
  show ?thesis using s ne ch by (simp add: readBody_def read_events_data on_end_def)
qed

lemma attach_json_fst:
  "fst (attach_json P config req body (e, st))
     = (if req_is_json req then (case JSON_parse P body of None \<Rightarrow> e | Some v \<Rightarrow> e\<lparr>e_json := Some v\<rparr>) else e)"
  by (simp add: attach_json_def split: option.splits)

lemma attach_json_snd:
  "st_res (snd (attach_json P config req body (e, st))) = st_res st"
  "st_echo (snd (attach_json P config req body (e, st))) = st_echo st"
  "st_histogram (snd (attach_json P config req body (e, st))) = st_histogram st"
  "st_sleeps (snd (attach_json P config req body (e, st))) = st_sleeps st"
  by (simp_all add: attach_json_def logger_write_def split: option.splits)

lemma attach_jwt_returns:
  assumes "jwt_decode P (last (split_on 32 (ctx_get req (or_empty (jwtHeader config))))) = Inr v"
  shows "\<exists>x. attach_jwt P config req e = Resolved (e\<lparr>e_jwt := x\<rparr>)"
proof (cases "truthy (jwtHeader config)")
  case False
  have "e = e\<lparr>e_jwt := e_jwt e\<rparr>" by simp
  then have "attach_jwt P config req e = Resolved (e\<lparr>e_jwt := e_jwt e\<rparr>)"
    using False by (simp add: attach_jwt_def)
  then show ?thesis by blast
next
  case True
  then show ?thesis using assms by (auto simp: attach_jwt_def Let_def)
qed

lemma respond_echo: "st_echo (respond config req body echo st) = st_echo st @ [echo]"
  by (simp add: respond_def log_request_def logger_write_def apply_type_def set_type_def
        send_body_def set_body_def apply_delay_def apply_status_def set_status_def
        split: option.splits)

lemma respond_status:
  "res_status (st_res (respond config req body echo st))
     = (case status_override req of None \<Rightarrow> res_status (st_res st) | Some code \<Rightarrow> Some code)"
  by (simp add: respond_def log_request_def logger_write_def apply_type_def set_type_def
        send_body_def set_body_def apply_delay_def apply_status_def set_status_def
        split: option.splits)

lemma respond_body:
  "res_body (st_res (respond config req body echo st))
     = Some (if \<not> echoBackToClient config then BodyNull
             else if req_query req (js ''response_body_only'') = Some (QStr (js ''true''))
             then BodyString body else BodyEcho echo)"
  by (simp add: respond_def log_request_def logger_write_def apply_type_def set_type_def
        send_body_def set_body_def apply_delay_def apply_status_def set_status_def
        split: option.splits)

lemma respond_histogram:
  "st_histogram (respond config req body echo st) = st_histogram st"
  by (simp add: respond_def log_request_def logger_write_def apply_type_def set_type_def
        send_body_def set_body_def apply_delay_def apply_status_def set_status_def
        split: option.splits)

lemma attach_certificate_fields:
  "e_body (attach_certificate s e) = e_body e"
  "e_json (attach_certificate s e) = e_json e"
  "e_headers (attach_certificate s e) = e_headers e"
  "e_cookies (attach_certificate s e) = e_cookies e"
  by (induction s e rule: attach_certificate.induct) simp_all

lemma echo0_fields:
  "e_body (attach_env P config (attach_certificate s (build_echo P config req body))) = body"
  "e_json (attach_env P config (attach_certificate s (build_echo P config req body))) = None"
  "e_headers (attach_env P config (attach_certificate s (build_echo P config req body)))
     = (if preserveHeaderCase config then rebuildHeaders (req_rawHeaders req)
        else (\<lambda>k. map_option Some (req_headers req k)))"
  "e_cookies (attach_env P config (attach_certificate s (build_echo P config req body)))
     = parseCookies (Some (ctx_get req (js ''cookie'')))"
  by (simp_all add: attach_env_def attach_certificate_fields build_echo_def)

lemma echoHandler_echoes:
  assumes o: "\<not> truthy (overrideResponseBody config)"
    and rb: "readBody P req = Resolved body"
    and j: "jwt_decode P (last (split_on 32 (ctx_get req (or_empty (jwtHeader config))))) = Inr v"
  shows "\<exists>st1 echo x. echoHandler P config req st = Resolved (respond config req body echo st1)
      \<and> st_res st1 = st_res st \<and> st_echo st1 = st_echo st \<and> st_histogram st1 = st_histogram st
      \<and> echo = (fst (attach_json P config req body
                   (attach_env P config (attach_certificate (req_socket req) (build_echo P config req body)), st)))
                 \<lparr>e_jwt := x\<rparr>"
proof -
  let ?e0 = "attach_env P config (attach_certificate (req_socket req) (build_echo P config req body))"
  let ?es = "attach_json P config req body (?e0, st)"
  from attach_jwt_returns[OF j, of "fst ?es"] obtain x where
    x: "attach_jwt P config req (fst ?es) = Resolved ((fst ?es)\<lparr>e_jwt := x\<rparr>)" by blast
  have "echoHandler P config req st = Resolved (respond config req body ((fst ?es)\<lparr>e_jwt := x\<rparr>) (snd ?es))"
    using o rb x by (simp add: echoHandler_def Let_def)
  then show ?thesis using attach_json_snd[of P config req body ?e0 st] by blast
qed

lemma ex_jwt: "jwt_decode (ex_platform env files) t = Inr JNull"
  by (simp add: ex_platform_def)


lemma readBody_pending: "body_stream P req = map StreamData cs \<Longrightarrow> readBody P req = Pending"
  using read_events_data[of "MAX_BODY_SIZE P" reader_init cs "[]"] by (simp add: readBody_def)






lemma attach_jwt_cases:
  "(\<exists>err. \<forall>e. attach_jwt P config req e = Rejected err)
   \<or> (\<exists>g. \<forall>e. attach_jwt P config req e = Resolved (g e))"
proof (cases "truthy (jwtHeader config)")
  case False
  then have "\<forall>e. attach_jwt P config req e = Resolved ((\<lambda>e. e) e)" by (simp add: attach_jwt_def)
  then show ?thesis by (intro disjI2 exI)
next
  case True
  let ?token = "ctx_get req (or_empty (jwtHeader config))"
  show ?thesis
  proof (cases "?token = []")
    case t: True
    have "\<forall>e. attach_jwt P config req e = Resolved ((\<lambda>e. e\<lparr>e_jwt := Some JNull\<rparr>) e)"
      using True t by (simp add: attach_jwt_def)
    then show ?thesis by (intro disjI2 exI)
  next
    case t: False
    show ?thesis
    proof (cases "jwt_decode P (last (split_on 32 ?token))")
      case (Inl err)
      then have "\<forall>e. attach_jwt P config req e = Rejected err"
        using True t by (simp add: attach_jwt_def)
      then show ?thesis by (intro disjI1 exI)
    next
      case (Inr v)
      then have "\<forall>e. attach_jwt P config req e = Resolved ((\<lambda>e. e\<lparr>e_jwt := Some v\<rparr>) e)"
        using True t by (simp add: attach_jwt_def)
      then show ?thesis by (intro disjI2 exI)
    qed
  qed
qed





lemma status_override_none_example:
  "status_override (ex_request m p Map.empty Map.empty es) = None"
  by (simp add: status_override_def header_or_query_def ctx_get_example_empty)
     (simp add: ex_request_def)

lemma ctx_get_example_header:
  "ctx_get (ex_request m p [js ''x-set-response-status-code'' \<mapsto> hv] q es)
     (js ''x-set-response-status-code'') = hv"
  by (simp add: ctx_get_def ex_request_def Let_def js_def toLowerCase_def lower_unit_def)

lemma ctx_get_example_other:
  "ctx_get (ex_request m p [js ''x-set-response-status-code'' \<mapsto> hv] q es)
     (js ''content-encoding'') = []"
  "ctx_get (ex_request m p [js ''x-set-response-status-code'' \<mapsto> hv] q es) [] = []"
  by (simp_all add: ctx_get_def ex_request_def Let_def js_def toLowerCase_def lower_unit_def)

lemma body_stream_example_header:
  "body_stream (ex_platform env files)
     (ex_request m p [js ''x-set-response-status-code'' \<mapsto> hv] q es) = es"
  by (simp add: body_stream_def ctx_get_example_other) (simp add: ex_request_def js_def)

lemma parseInt_examples:
  "parseInt (js ''418'') = Some 418"
  "parseInt (js ''999'') = Some 999"
  "parseInt (js ''abc'') = None"
  "parseInt (js ''201'') = Some 201"
  by (simp_all add: parseInt_def trimStart_def isWhiteSpace_def isDigit_def js_def)

text \<open>Where \<open>decode\<close> throws and where it does not.\<close>

lemma attach_jwt_throws:
  "decode_throws P config req \<Longrightarrow>
   attach_jwt P config req e
     = Rejected (projl (jwt_decode P (last (split_on 32 (ctx_get req (or_empty (jwtHeader config)))))))"
  by (cases "jwt_decode P (last (split_on 32 (ctx_get req (or_empty (jwtHeader config)))))")
     (simp_all add: decode_throws_def attach_jwt_def)

lemma attach_jwt_not_throws:
  assumes "\<not> decode_throws P config req"
  shows "\<exists>x. attach_jwt P config req e = Resolved (e\<lparr>e_jwt := x\<rparr>)"
proof (cases "truthy (jwtHeader config) \<and> ctx_get req (or_empty (jwtHeader config)) \<noteq> []")
  case True
  then obtain v where "jwt_decode P (last (split_on 32 (ctx_get req (or_empty (jwtHeader config))))) = Inr v"
    using assms
    by (cases "jwt_decode P (last (split_on 32 (ctx_get req (or_empty (jwtHeader config)))))")
       (simp_all add: decode_throws_def)
  then show ?thesis by (rule attach_jwt_returns)
next
  case False
  show ?thesis
  proof (cases "truthy (jwtHeader config)")
    case True
    then have "attach_jwt P config req e = Resolved (e\<lparr>e_jwt := Some JNull\<rparr>)"
      using False by (simp add: attach_jwt_def)
    then show ?thesis by blast
  next
    case f: False
    have "e = e\<lparr>e_jwt := e_jwt e\<rparr>" by simp
    then have "attach_jwt P config req e = Resolved (e\<lparr>e_jwt := e_jwt e\<rparr>)"
      using f by (simp add: attach_jwt_def)
    then show ?thesis by blast
  qed
qed

lemma echoHandler_throws:
  assumes o: "\<not> truthy (overrideResponseBody config)"
    and rb: "readBody P req = Resolved body"
    and t: "decode_throws P config req"
  shows "echoHandler P config req st
     = Rejected (projl (jwt_decode P (last (split_on 32 (ctx_get req (or_empty (jwtHeader config)))))))"
  using o rb by (simp add: echoHandler_def Let_def attach_jwt_throws[OF t])

lemma echoHandler_responds:
  assumes o: "\<not> truthy (overrideResponseBody config)"
    and rb: "readBody P req = Resolved body"
    and t: "\<not> decode_throws P config req"
  shows "\<exists>st1 echo x. echoHandler P config req st = Resolved (respond config req body echo st1)
      \<and> st_res st1 = st_res st \<and> st_echo st1 = st_echo st \<and> st_histogram st1 = st_histogram st
      \<and> echo = (fst (attach_json P config req body
                   (attach_env P config (attach_certificate (req_socket req) (build_echo P config req body)), st)))
                 \<lparr>e_jwt := x\<rparr>"
proof -
  let ?e0 = "attach_env P config (attach_certificate (req_socket req) (build_echo P config req body))"
  let ?es = "attach_json P config req body (?e0, st)"
  from attach_jwt_not_throws[OF t, of "fst ?es"] obtain x where
    x: "attach_jwt P config req (fst ?es) = Resolved ((fst ?es)\<lparr>e_jwt := x\<rparr>)" by blast
  have "echoHandler P config req st = Resolved (respond config req body ((fst ?es)\<lparr>e_jwt := x\<rparr>) (snd ?es))"
    using o rb x by (simp add: echoHandler_def Let_def)
  then show ?thesis using attach_json_snd[of P config req body ?e0 st] by blast
qed

lemma handler_returns_iff:
  "(\<exists>st'. echoHandler P config req st = Resolved st') = handler_returns P config req"
proof (cases "truthy (overrideResponseBody config)")
  case True
  then show ?thesis by (simp add: handler_returns_def echoHandler_def)
next
  case False
  show ?thesis
  proof (cases "readBody P req")
    case Pending
    then show ?thesis using False by (simp add: handler_returns_def echoHandler_def)
  next
    case (Rejected msg)
    then show ?thesis using False by (simp add: handler_returns_def echoHandler_def)
  next
    case (Resolved body)
    show ?thesis
    proof (cases "decode_throws P config req")
      case True
      then show ?thesis using False Resolved echoHandler_throws[OF False Resolved True, of st]
        by (simp add: handler_returns_def)
    next
      case f: False
      then show ?thesis using False Resolved echoHandler_responds[OF False Resolved f, of st]
        by (auto simp: handler_returns_def)
    qed
  qed
qed

text \<open>The status the framework answers with once the handler has responded.\<close>

lemma respond_response_status:
  "response_status (st_res (respond config req body echo st))
     = (if echoBackToClient config
        then (case status_override req of
                None \<Rightarrow> (case res_status (st_res st) of None \<Rightarrow> 200 | Some code \<Rightarrow> code)
              | Some code \<Rightarrow> code)
        else (case status_override req of
                None \<Rightarrow> (case res_status (st_res st) of
                            None \<Rightarrow> 204
                          | Some code \<Rightarrow> if code = 204 \<or> code = 205 \<or> code = 304 then code else 204)
              | Some code \<Rightarrow> if code = 204 \<or> code = 205 \<or> code = 304 then code else 204))"
  by (simp add: response_status_def respond_body respond_status split: option.splits)

lemma readBody_jwt_decode: "readBody (P\<lparr>jwt_decode := f\<rparr>) req = readBody P req"
  by (simp add: readBody_def MAX_BODY_SIZE_def env_or_def body_stream_def)






text \<open>Requests with one header, for the examples.\<close>

lemma ctx_get_authorization:
  "ctx_get (r\<lparr>req_headers := [js ''authorization'' \<mapsto> hv]\<rparr>) (js ''authorization'') = hv"
  "ctx_get (r\<lparr>req_headers := [js ''authorization'' \<mapsto> hv]\<rparr>) (js ''content-encoding'') = []"
  by (simp_all add: ctx_get_def Let_def js_def toLowerCase_def lower_unit_def)

lemma ctx_get_cookie:
  "ctx_get (r\<lparr>req_headers := [js ''cookie'' \<mapsto> hv]\<rparr>) (js ''cookie'') = hv"
  "ctx_get (r\<lparr>req_headers := [js ''cookie'' \<mapsto> hv]\<rparr>) (js ''content-encoding'') = []"
  "ctx_get (r\<lparr>req_headers := [js ''cookie'' \<mapsto> hv]\<rparr>) [] = []"
  by (simp_all add: ctx_get_def Let_def js_def toLowerCase_def lower_unit_def)

lemma body_stream_plain:
  "ctx_get req (js ''content-encoding'') = [] \<Longrightarrow> body_stream P req = req_events req"
  by (simp add: body_stream_def js_def)


section \<open>Cookies\<close>

lemma indexOf_takeWhile:
  "indexOf p c = (if c \<in> set p then int (length (takeWhile (\<lambda>x. x \<noteq> c) p)) else - 1)"
  by (induction p) (auto simp: Let_def)

lemma split_on_nonempty: "split_on c s \<noteq> []"
  by (induction s) (auto split: list.splits)

lemma split_on_join: "join_with c (split_on c s) = s"
proof (induction s)
  case Nil
  then show ?case by simp
next
  case (Cons x xs)
  obtain p ps where ps: "split_on c xs = p # ps"
    using split_on_nonempty[of c xs] by (cases "split_on c xs") auto
  show ?case using Cons ps by (cases ps) auto
qed

lemma split_on_pieces: "p \<in> set (split_on c s) \<Longrightarrow> c \<notin> set p"
  by (induction s arbitrary: p) (auto split: list.splits if_splits)

lemma cookie_step_pair:
  "cookie_step m p = (case cookie_pair p of None \<Rightarrow> m | Some (k, v) \<Rightarrow> assign_property m k v)"
proof (cases "61 \<in> set p")
  case False
  then show ?thesis by (simp add: cookie_step_def cookie_pair_def indexOf_takeWhile)
next
  case True
  let ?n = "length (takeWhile (\<lambda>c. c \<noteq> 61) p)"
  have i: "indexOf p 61 = int ?n" using True by (simp add: indexOf_takeWhile)
  have t: "take ?n p = takeWhile (\<lambda>c. c \<noteq> 61) p" by (simp add: takeWhile_eq_take[symmetric])
  have d: "drop (?n + 1) p = tl (dropWhile (\<lambda>c. c \<noteq> 61) p)"
    by (simp add: dropWhile_eq_drop tl_drop drop_Suc)
  show ?thesis
  proof (cases "?n = 0")
    case z: True
    then show ?thesis using i by (simp add: cookie_step_def cookie_pair_def)
  next
    case nz: False
    then have "takeWhile (\<lambda>c. c \<noteq> 61) p \<noteq> []" by auto
    then show ?thesis using i t d True nz
      by (simp add: cookie_step_def cookie_pair_def Let_def)
  qed
qed

text \<open>Under every key but \<open>__proto__\<close> the loop stores the pairs, the later over the
  earlier; under \<open>__proto__\<close> it stores nothing.\<close>

lemma foldl_cookie_step:
  assumes "key \<noteq> js ''__proto__''"
  shows "foldl cookie_step m ps key = (m ++ map_of (rev (List.map_filter cookie_pair ps))) key"
proof (induction ps arbitrary: m)
  case Nil
  then show ?case by (simp add: List.map_filter_simps)
next
  case (Cons p ps)
  show ?case
  proof (cases "cookie_pair p")
    case None
    then have "cookie_step m p = m" by (simp add: cookie_step_pair)
    then have "foldl cookie_step m (p # ps) = foldl cookie_step m ps" by simp
    then show ?thesis using Cons[of m] None by (simp add: List.map_filter_simps)
  next
    case (Some kv)
    obtain k v where kv: "kv = (k, v)" by (cases kv)
    have "cookie_step m p = assign_property m k v"
      using Some kv by (simp add: cookie_step_pair)
    then have "foldl cookie_step m (p # ps) key = foldl cookie_step (assign_property m k v) ps key"
      by simp
    also have "\<dots> = (assign_property m k v ++ map_of (rev (List.map_filter cookie_pair ps))) key"
      by (rule Cons)
    also have "\<dots> = (m ++ map_of (rev (List.map_filter cookie_pair (p # ps)))) key"
      using Some kv assms
      by (auto simp: List.map_filter_simps map_add_def assign_property_def split: option.splits)
    finally show ?thesis .
  qed
qed

lemma foldl_cookie_step_proto:
  "foldl cookie_step m ps (js ''__proto__'') = m (js ''__proto__'')"
proof (induction ps arbitrary: m)
  case Nil
  then show ?case by simp
next
  case (Cons p ps)
  have "cookie_step m p (js ''__proto__'') = m (js ''__proto__'')"
    by (simp add: cookie_step_pair assign_property_def split: option.splits)
  then show ?case using Cons[of "cookie_step m p"] by simp
qed

lemma parseCookies_proto: "parseCookies header (js ''__proto__'') = None"
  by (simp add: parseCookies_def foldl_cookie_step_proto)

lemma parseCookies_key:
  assumes "key \<noteq> js ''__proto__''"
  shows "parseCookies (Some h) key = map_of (rev (List.map_filter cookie_pair (split_on 59 h))) key"
proof (cases "h = []")
  case True
  then show ?thesis by (simp add: parseCookies_def List.map_filter_simps cookie_pair_def)
next
  case False
  then show ?thesis by (simp add: parseCookies_def foldl_cookie_step[OF assms])
qed

section \<open>Headers\<close>

lemma rebuild_loop_pairs:
  assumes "name \<noteq> js ''__proto__''"
  shows "rebuild_loop m (concat (map (\<lambda>(k, v). [k, v]) pairs)) name
     = (m ++ map_of (rev (map (\<lambda>(k, v). (k, Some v)) pairs))) name"
proof (induction pairs arbitrary: m)
  case Nil
  then show ?case by simp
next
  case (Cons kv pairs)
  obtain k v where kv: "kv = (k, v)" by (cases kv)
  have "rebuild_loop m (concat (map (\<lambda>(k, v). [k, v]) (kv # pairs))) name
      = rebuild_loop (assign_property m k (Some v)) (concat (map (\<lambda>(k, v). [k, v]) pairs)) name"
    using kv by simp
  also have "\<dots> = (assign_property m k (Some v) ++ map_of (rev (map (\<lambda>(k, v). (k, Some v)) pairs))) name"
    by (rule Cons)
  also have "\<dots> = (m ++ map_of (rev (map (\<lambda>(k, v). (k, Some v)) (kv # pairs)))) name"
    using kv assms by (auto simp: map_add_def assign_property_def split: option.splits)
  finally show ?case .
qed

lemma rebuild_loop_proto: "rebuild_loop m raw (js ''__proto__'') = m (js ''__proto__'')"
  by (induction m raw rule: rebuild_loop.induct) (simp_all add: assign_property_def)

lemma rebuildHeaders_pairs:
  "name \<noteq> js ''__proto__'' \<Longrightarrow>
   rebuildHeaders (concat (map (\<lambda>(k, v). [k, v]) pairs)) name
     = map_of (rev (map (\<lambda>(k, v). (k, Some v)) pairs)) name"
  by (simp add: rebuildHeaders_def rebuild_loop_pairs)

lemma rebuildHeaders_proto: "rebuildHeaders raw (js ''__proto__'') = None"
  by (simp add: rebuildHeaders_def rebuild_loop_proto)

text \<open>The cookies and the headers of the echo object a run builds.\<close>

lemma cookies_of_echoed:
  assumes o: "\<not> truthy (overrideResponseBody config)"
    and rb: "readBody P req = Resolved body"
    and t: "\<not> decode_throws P config req"
  shows "map e_cookies (built_echo (echoHandler P config req st))
     = map e_cookies (st_echo st) @ [parseCookies (Some (ctx_get req (js ''cookie'')))]"
proof -
  from echoHandler_responds[OF o rb t, of st] obtain st1 echo x where
    h: "echoHandler P config req st = Resolved (respond config req body echo st1)"
       "st_echo st1 = st_echo st"
       "echo = (fst (attach_json P config req body
                   (attach_env P config (attach_certificate (req_socket req) (build_echo P config req body)), st)))
                 \<lparr>e_jwt := x\<rparr>"
    by blast
  have "e_cookies echo = parseCookies (Some (ctx_get req (js ''cookie'')))"
    unfolding h(3) by (simp add: attach_json_fst echo0_fields split: option.splits)
  then show ?thesis unfolding h(1) by (simp add: built_echo_def respond_echo h(2))
qed

lemma headers_of_responds:
  assumes o: "\<not> truthy (overrideResponseBody config)"
    and rb: "readBody P req = Resolved body"
    and t: "\<not> decode_throws P config req"
  shows "map e_headers (built_echo (echoHandler P config req st))
     = map e_headers (st_echo st)
       @ [if preserveHeaderCase config then rebuildHeaders (req_rawHeaders req)
          else (\<lambda>k. map_option Some (req_headers req k))]"
proof -
  from echoHandler_responds[OF o rb t, of st] obtain st1 echo x where
    h: "echoHandler P config req st = Resolved (respond config req body echo st1)"
       "st_echo st1 = st_echo st"
       "echo = (fst (attach_json P config req body
                   (attach_env P config (attach_certificate (req_socket req) (build_echo P config req body)), st)))
                 \<lparr>e_jwt := x\<rparr>"
    by blast
  have "e_headers echo = (if preserveHeaderCase config then rebuildHeaders (req_rawHeaders req)
          else (\<lambda>k. map_option Some (req_headers req k)))"
    unfolding h(3) by (simp add: attach_json_fst echo0_fields split: option.splits)
  then show ?thesis unfolding h(1) by (simp add: built_echo_def respond_echo h(2))
qed

section \<open>The middleware stack\<close>

lemma cors_headers_fields:
  "st_histogram (cors_headers app st) = st_histogram st"
  "st_echo (cors_headers app st) = st_echo st"
  "st_log (cors_headers app st) = st_log st"
  "st_sleeps (cors_headers app st) = st_sleeps st"
  "res_status (st_res (cors_headers app st)) = res_status (st_res st)"
  "res_body (st_res (cors_headers app st)) = res_body (st_res st)"
  "res_type (st_res (cors_headers app st)) = res_type (st_res st)"
  by (simp_all add: cors_headers_def ctx_set_def Let_def)

lemma cors_headers_set:
  "res_headers (st_res (cors_headers app st))
     = res_headers (st_res st)
       @ [(js ''Access-Control-Allow-Origin'', or_empty (CORS_ORIGIN app))]
       @ (if truthy (CORS_METHODS app)
          then [(js ''Access-Control-Allow-Methods'', or_empty (CORS_METHODS app))] else [])
       @ (if truthy (CORS_HEADERS app)
          then [(js ''Access-Control-Allow-Headers'', or_empty (CORS_HEADERS app))] else [])
       @ (if truthy (CORS_CREDENTIALS app)
          then [(js ''Access-Control-Allow-Credentials'', or_empty (CORS_CREDENTIALS app))] else [])"
  by (simp add: cors_headers_def ctx_set_def Let_def)

lemma cors_headers_eq:
  "cors_headers app st
     = st\<lparr>st_res := (st_res st)\<lparr>res_headers :=
          res_headers (st_res st)
          @ [(js ''Access-Control-Allow-Origin'', or_empty (CORS_ORIGIN app))]
          @ (if truthy (CORS_METHODS app)
             then [(js ''Access-Control-Allow-Methods'', or_empty (CORS_METHODS app))] else [])
          @ (if truthy (CORS_HEADERS app)
             then [(js ''Access-Control-Allow-Headers'', or_empty (CORS_HEADERS app))] else [])
          @ (if truthy (CORS_CREDENTIALS app)
             then [(js ''Access-Control-Allow-Credentials'', or_empty (CORS_CREDENTIALS app))]
             else [])\<rparr>\<rparr>"
  by (simp add: cors_headers_def ctx_set_def Let_def)

lemma createApp_cors_example:
  "createApp (ex_platform [js ''CORS_ALLOW_ORIGIN'' \<mapsto> js ''*'', js ''PROMETHEUS_ENABLED'' \<mapsto> js ''true''] Map.empty)
   = Resolved
       \<lparr>DISABLE_REQUEST_LOGS = False,
        LOG_IGNORE_PATH = None,
        CORS_ORIGIN = Some (js ''*''),
        CORS_METHODS = None,
        CORS_HEADERS = None,
        CORS_CREDENTIALS = None,
        PROMETHEUS_ENABLED = True,
        PROMETHEUS_PATH = js ''/metrics'',
        echo_options =
          \<lparr>echoBackToClient = True,
           overrideResponseBody = None,
           preserveHeaderCase = False,
           includeEnvVars = False,
           jwtHeader = None,
           logIgnorePath = None,
           logWithoutNewline = False,
           logger_enabled = True\<rparr>\<rparr>"
  by (simp add: createApp_def logIgnore_def overrideBody_def env_is_def env_or_def ex_platform_def
        js_def Let_def)

lemma echoHandler_histogram:
  assumes "echoHandler P config req st = Resolved st'"
  shows "st_histogram st' = st_histogram st"
proof (cases "truthy (overrideResponseBody config)")
  case True
  then show ?thesis using assms by (auto simp: echoHandler_def set_body_def)
next
  case False
  show ?thesis
  proof (cases "readBody P req")
    case Pending
    then show ?thesis using assms False by (simp add: echoHandler_def)
  next
    case (Rejected msg)
    then show ?thesis using assms False by (auto simp: echoHandler_def set_body_def set_status_def)
  next
    case (Resolved body)
    show ?thesis using attach_jwt_cases[of P config req]
    proof (elim disjE exE)
      fix err assume "\<forall>e. attach_jwt P config req e = Rejected err"
      then show ?thesis using assms False Resolved by (simp add: echoHandler_def Let_def)
    next
      fix g assume "\<forall>e. attach_jwt P config req e = Resolved (g e)"
      then show ?thesis using assms False Resolved
        by (auto simp: echoHandler_def Let_def respond_histogram attach_json_snd)
    qed
  qed
qed

lemma access_log_resolved:
  assumes "access_log_middleware P app req ms next st = Resolved st'"
  shows "\<exists>st2. next st = Resolved st2 \<and> st_histogram st' = st_histogram st2
          \<and> st_res st' = st_res st2 \<and> st_echo st' = st_echo st2"
  using assms
  by (cases "next st")
     (auto simp: access_log_middleware_def logger_write_def split: option.splits if_splits)

lemma metricsMiddleware_resolved:
  assumes "metricsMiddleware P req elapsed next st = Resolved st'"
  shows "\<exists>st2. next st = Resolved st2
          \<and> st' = st2\<lparr>st_histogram := st_histogram st2 @ [(labels_of P req st2, elapsed)]\<rparr>"
  using assms by (cases "next st") (auto simp: metricsMiddleware_def)

lemma metricsEndpoint_eq:
  "metricsEndpoint P st
     = Resolved (st\<lparr>st_res := (st_res st)
         \<lparr>res_body := Some (BodyString (register_metrics P (st_histogram st))),
          res_headers := res_headers (st_res st) @ [(js ''Content-Type'', register_contentType P)]\<rparr>\<rparr>)"
  by (simp add: metricsEndpoint_def set_body_def ctx_set_def)

lemma GET_not_OPTIONS: "js ''GET'' \<noteq> js ''OPTIONS''"
  by (simp add: js_def)

text \<open>The stack below the CORS middleware.\<close>

lemma scrape_served:
  assumes e: "PROMETHEUS_ENABLED app"
    and p: "req_path req = PROMETHEUS_PATH app" and m: "req_method req = js ''GET''"
  shows "\<exists>st'. app_callback P app ms elapsed req st = Resolved st'
      \<and> st_histogram st' = st_histogram st
      \<and> res_body (st_res st') = Some (BodyString (register_metrics P (st_histogram st)))
      \<and> (js ''Content-Type'', register_contentType P) \<in> set (res_headers (st_res st'))
      \<and> st_echo st' = st_echo st"
  using e p m GET_not_OPTIONS
  by (auto simp: app_callback_def cors_middleware_def access_log_middleware_def
        prometheus_middleware_def metricsEndpoint_eq cors_headers_fields logger_write_def
        split: option.splits)

lemma createApp_override:
  assumes a: "createApp P = Resolved app"
  shows "overrideBody P = Resolved (overrideResponseBody (echo_options app))"
    and "jwtHeader (echo_options app) = process_env P (js ''JWT_HEADER'')"
  using a by (auto simp: createApp_def split: promise.splits)

lemma echoHandler_override_falsy:
  assumes "\<not> truthy (overrideResponseBody config)"
  shows "echoHandler P config req st = echoHandler P (config\<lparr>overrideResponseBody := None\<rparr>) req st"
proof -
  have b: "build_echo P (config\<lparr>overrideResponseBody := None\<rparr>) req body = build_echo P config req body" for body
    by (simp add: build_echo_def)
  have e: "attach_env P (config\<lparr>overrideResponseBody := None\<rparr>) x = attach_env P config x" for x
    by (simp add: attach_env_def)
  have j: "attach_json P (config\<lparr>overrideResponseBody := None\<rparr>) req body es = attach_json P config req body es" for body es
    by (simp add: attach_json_def cong: option.case_cong)
  have w: "attach_jwt P (config\<lparr>overrideResponseBody := None\<rparr>) req x = attach_jwt P config req x" for x
    by (simp add: attach_jwt_def)
  have r: "respond (config\<lparr>overrideResponseBody := None\<rparr>) req body echo s = respond config req body echo s" for body echo s
    by (simp add: respond_def log_request_def send_body_def cong: option.case_cong if_cong)
  show ?thesis using assms
    by (simp add: echoHandler_def b e j w r Let_def cong: promise.case_cong)
qed

lemma createApp_override_example:
  "\<exists>app. createApp (ex_platform [js ''OVERRIDE_RESPONSE_BODY_FILE_PATH'' \<mapsto> js ''/o.txt'']
                      [js ''/o.txt'' \<mapsto> File []]) = Resolved app
         \<and> echoBackToClient (echo_options app)"
  by (simp add: createApp_def logIgnore_def overrideBody_def env_is_def env_or_def ex_platform_def
        js_def Let_def)

text \<open>The labels of an observation, read off the environment.\<close>

lemma labels_of_env:
  "labels_of P req st
     = (if process_env P (js ''PROMETHEUS_WITH_PATH'') = Some (js ''true'')
        then [(js ''path'', req_path req)] else [])
       @ (if process_env P (js ''PROMETHEUS_WITH_METHOD'') = None
             \<or> process_env P (js ''PROMETHEUS_WITH_METHOD'') = Some (js ''true'')
          then [(js ''method'', req_method req)] else [])
       @ (if process_env P (js ''PROMETHEUS_WITH_STATUS'') = None
             \<or> process_env P (js ''PROMETHEUS_WITH_STATUS'') = Some (js ''true'')
          then [(js ''status'', number_toString (Some (int (ctx_status P (st_res st)))))] else [])"
proof -
  have f: "js ''false'' \<noteq> js ''true''" by (simp add: js_def)
  have 1: "PROMETHEUS_WITH_PATH P = (process_env P (js ''PROMETHEUS_WITH_PATH'') = Some (js ''true''))"
    using f by (simp add: PROMETHEUS_WITH_PATH_def env_default_def split: option.splits)
  have 2: "PROMETHEUS_WITH_METHOD P = (process_env P (js ''PROMETHEUS_WITH_METHOD'') = None
             \<or> process_env P (js ''PROMETHEUS_WITH_METHOD'') = Some (js ''true''))"
    by (simp add: PROMETHEUS_WITH_METHOD_def env_default_def split: option.splits)
  have 3: "PROMETHEUS_WITH_STATUS P = (process_env P (js ''PROMETHEUS_WITH_STATUS'') = None
             \<or> process_env P (js ''PROMETHEUS_WITH_STATUS'') = Some (js ''true''))"
    by (simp add: PROMETHEUS_WITH_STATUS_def env_default_def split: option.splits)
  show ?thesis unfolding labels_of_def 1 2 3 ..
qed

lemma labels_of_res: "st_res s = st_res s' \<Longrightarrow> labels_of P req s = labels_of P req s'"
  by (simp add: labels_of_def)

text \<open>A request that passes the metrics middleware: it is observed once where the
  handler below returns, and the stack returns nothing where the handler does not.\<close>

lemma served_when_returned:
  assumes e: "PROMETHEUS_ENABLED app"
    and n: "\<not> (req_path req = PROMETHEUS_PATH app \<and> req_method req = js ''GET'')"
    and c: "\<not> (truthy (CORS_ORIGIN app) \<and> req_method req = js ''OPTIONS'')"
    and s3: "echoHandler P (echo_options app) req
               (if truthy (CORS_ORIGIN app) then cors_headers app st else st) = Resolved s3"
  shows "\<exists>st'. app_callback P app ms elapsed req st = Resolved st'
      \<and> st_res st' = st_res s3
      \<and> st_histogram st' = st_histogram st @ [(labels_of P req st', elapsed)]"
proof -
  define st1 where "st1 = (if truthy (CORS_ORIGIN app) then cors_headers app st else st)"
  have h1: "st_histogram st1 = st_histogram st" by (simp add: st1_def cors_headers_fields)
  have s3': "echoHandler P (echo_options app) req st1 = Resolved s3" using s3 by (simp add: st1_def)
  define s4 where "s4 = s3\<lparr>st_histogram := st_histogram s3 @ [(labels_of P req s3, elapsed)]\<rparr>"
  let ?prom = "prometheus_middleware P app req elapsed (echoHandler P (echo_options app) req)"
  let ?log = "(if \<not> DISABLE_REQUEST_LOGS app then access_log_middleware P app req ms else (\<lambda>next. next)) ?prom"
  have p: "?prom st1 = Resolved s4"
    using n s3' by (auto simp: prometheus_middleware_def metricsMiddleware_def s4_def)
  have "\<exists>st'. ?log st1 = Resolved st' \<and> st_histogram st' = st_histogram s4 \<and> st_res st' = st_res s4"
    using p by (simp add: access_log_middleware_def logger_write_def split: option.splits)
  then obtain st' where l: "?log st1 = Resolved st'" "st_histogram st' = st_histogram s4"
    "st_res st' = st_res s4" by blast
  have a: "app_callback P app ms elapsed req st = ?log st1"
    using c e by (simp add: app_callback_def cors_middleware_def st1_def)
  have r: "st_res st' = st_res s3" using l(3) by (simp add: s4_def)
  then have lb: "labels_of P req s3 = labels_of P req st'" by (rule labels_of_res[symmetric])
  have "st_histogram s3 = st_histogram st" using echoHandler_histogram[OF s3'] h1 by simp
  then have "st_histogram st' = st_histogram st @ [(labels_of P req st', elapsed)]"
    using l(2) lb by (simp add: s4_def)
  then show ?thesis using a l(1) r by simp
qed

lemma observed_when_returned:
  assumes e: "PROMETHEUS_ENABLED app"
    and n: "\<not> (req_path req = PROMETHEUS_PATH app \<and> req_method req = js ''GET'')"
    and c: "\<not> (truthy (CORS_ORIGIN app) \<and> req_method req = js ''OPTIONS'')"
    and r: "handler_returns P (echo_options app) req"
  shows "\<exists>st'. app_callback P app ms elapsed req st = Resolved st'
      \<and> st_histogram st' = st_histogram st @ [(labels_of P req st', elapsed)]"
proof -
  from r obtain s3 where "echoHandler P (echo_options app) req
               (if truthy (CORS_ORIGIN app) then cors_headers app st else st) = Resolved s3"
    using handler_returns_iff[of P "echo_options app" req
        "if truthy (CORS_ORIGIN app) then cors_headers app st else st"] by blast
  from served_when_returned[OF e n c this, of ms elapsed] show ?thesis by blast
qed

lemma unobserved_when_not_returned:
  assumes e: "PROMETHEUS_ENABLED app"
    and n: "\<not> (req_path req = PROMETHEUS_PATH app \<and> req_method req = js ''GET'')"
    and c: "\<not> (truthy (CORS_ORIGIN app) \<and> req_method req = js ''OPTIONS'')"
    and r: "\<not> handler_returns P (echo_options app) req"
  shows "app_callback P app ms elapsed req st \<noteq> Resolved st'"
proof
  assume r': "app_callback P app ms elapsed req st = Resolved st'"
  define st1 where "st1 = (if truthy (CORS_ORIGIN app) then cors_headers app st else st)"
  let ?prom = "prometheus_middleware P app req elapsed (echoHandler P (echo_options app) req)"
  let ?log = "(if \<not> DISABLE_REQUEST_LOGS app then access_log_middleware P app req ms else (\<lambda>next. next)) ?prom"
  have r1: "?log st1 = Resolved st'"
    using r' c e by (auto simp: app_callback_def cors_middleware_def st1_def split: if_splits)
  have "\<exists>st2. ?prom st1 = Resolved st2"
  proof (cases "DISABLE_REQUEST_LOGS app")
    case True
    then show ?thesis using r1 by simp
  next
    case False
    then show ?thesis using access_log_resolved[of P app req ms ?prom st1 st'] r1 by auto
  qed
  then obtain st2 where "?prom st1 = Resolved st2" by blast
  then have "metricsMiddleware P req elapsed (echoHandler P (echo_options app) req) st1 = Resolved st2"
    using n by (simp add: prometheus_middleware_def)
  from metricsMiddleware_resolved[OF this] obtain st3 where
    "echoHandler P (echo_options app) req st1 = Resolved st3" by blast
  then have "handler_returns P (echo_options app) req"
    using handler_returns_iff[of P "echo_options app" req st1] by blast
  then show False using r by simp
qed

lemma createApp_jwt_example:
  "createApp ((ex_platform [js ''PROMETHEUS_ENABLED'' \<mapsto> js ''true'', js ''JWT_HEADER'' \<mapsto> js ''authorization''] Map.empty)
               \<lparr>jwt_decode := (\<lambda>t. Inl (js ''bad''))\<rparr>)
   = Resolved
       \<lparr>DISABLE_REQUEST_LOGS = False,
        LOG_IGNORE_PATH = None,
        CORS_ORIGIN = None,
        CORS_METHODS = None,
        CORS_HEADERS = None,
        CORS_CREDENTIALS = None,
        PROMETHEUS_ENABLED = True,
        PROMETHEUS_PATH = js ''/metrics'',
        echo_options =
          \<lparr>echoBackToClient = True,
           overrideResponseBody = None,
           preserveHeaderCase = False,
           includeEnvVars = False,
           jwtHeader = Some (js ''authorization''),
           logIgnorePath = None,
           logWithoutNewline = False,
           logger_enabled = True\<rparr>\<rparr>"
  by (simp add: createApp_def logIgnore_def overrideBody_def env_is_def env_or_def ex_platform_def
        js_def Let_def)

section \<open>Claims\<close>

text \<open>
  C1 (as amended). Where no override response body is configured, the limit is positive
  and the (decompressed) body stream delivers chunks of more than \<open>MAX_BODY_SIZE\<close> bytes
  in total and then ends: the reader has counted every chunk when its promise settles
  (it drained the stream), it kept exactly the chunks before the one that took the total
  past the limit (it stopped accumulating), it rejects with
  \<open>Body exceeds max size of <limit> bytes\<close>, the limit in decimal, and the handler
  assigns status 413 and the body \<open>{error: message}\<close> and changes nothing else: no echo
  object is built, nothing is logged.
\<close>

theorem too_large_413:
  assumes o: "\<not> truthy (overrideResponseBody config)"
    and s: "body_stream P req = map StreamData cs @ StreamEnd # rest"
    and m: "MAX_BODY_SIZE P = Some m" "0 < m" "m < int (length (concat cs))"
  shows "(\<exists>r k. read_events (MAX_BODY_SIZE P) reader_init (body_stream P req)
                  = (r, Rejected (too_large_message (Some m)))
            \<and> rd_size r = length (concat cs)
            \<and> k < length cs \<and> rd_chunks r = take k cs
            \<and> int (length (concat (take k cs))) \<le> m
            \<and> m < int (length (concat (take (Suc k) cs))))
       \<and> too_large_message (Some m) = js ''Body exceeds max size of '' @ digits_of (nat m) @ js '' bytes''
       \<and> parseInt (digits_of (nat m)) = Some m
       \<and> echoHandler P config req st
           = Resolved (st\<lparr>st_res := (st_res st)
                \<lparr>res_status := Some 413,
                 res_body := Some (BodyObject [(js ''error'', JStr (too_large_message (Some m)))])\<rparr>\<rparr>)"
proof -
  let ?r = "foldl (on_data (Some m)) reader_init cs"
  have nw: "\<not> within_limit (Some m) (length (concat cs))"
    using m by (simp add: within_limit_def)
  have ex: "rd_exceeded ?r" using nw by (simp add: rd_exceeded_foldl)
  have re: "read_events (MAX_BODY_SIZE P) reader_init (body_stream P req)
              = (?r, Rejected (too_large_message (Some m)))"
    using s m(1) ex by (simp add: read_events_data on_end_def)
  have w0: "within_limit (Some m) 0" using m(2) by (simp add: within_limit_def)
  from kept_take[OF w0, of cs] obtain k where k: "k \<le> length cs" "kept (Some m) 0 cs = take k cs"
    "within_limit (Some m) (length (concat (take k cs)))"
    "k < length cs \<longrightarrow> \<not> within_limit (Some m) (length (concat (take (Suc k) cs)))"
    by auto
  have klt: "k < length cs"
  proof (rule ccontr)
    assume "\<not> k < length cs"
    then have "take k cs = cs" using k(1) by simp
    then show False using k(3) nw by simp
  qed
  have ch: "rd_chunks ?r = take k cs"
    using rd_chunks_foldl[OF reader_inv_init, of "Some m" cs] k(2)
    by (simp add: reader_init_def)
  have b1: "int (length (concat (take k cs))) \<le> m"
    using k(3) m(2) by (simp add: within_limit_def)
  have b2: "m < int (length (concat (take (Suc k) cs)))"
    using k(4) klt m(2) by (simp add: within_limit_def)
  have part1: "\<exists>r k. read_events (MAX_BODY_SIZE P) reader_init (body_stream P req)
                  = (r, Rejected (too_large_message (Some m)))
            \<and> rd_size r = length (concat cs)
            \<and> k < length cs \<and> rd_chunks r = take k cs
            \<and> int (length (concat (take k cs))) \<le> m
            \<and> m < int (length (concat (take (Suc k) cs)))"
    using re klt ch b1 b2 by (intro exI[where x="?r"] exI[where x=k]) (simp add: rd_size_foldl reader_init_def)
  have msg: "too_large_message (Some m) = js ''Body exceeds max size of '' @ digits_of (nat m) @ js '' bytes''"
    using m(2) by (simp add: too_large_message_def number_toString_def)
  have pi: "parseInt (digits_of (nat m)) = Some m"
    using m(2) by (simp add: parseInt_digits_of)
  have rb: "readBody P req = Rejected (too_large_message (Some m))"
    using re by (simp add: readBody_def)
  have eh: "echoHandler P config req st =
      Resolved (set_body (BodyObject [(js ''error'', JStr (too_large_message (Some m)))]) (set_status 413 st))"
    using o rb by (simp add: echoHandler_def)
  have part3: "echoHandler P config req st
           = Resolved (st\<lparr>st_res := (st_res st)
                \<lparr>res_status := Some 413,
                 res_body := Some (BodyObject [(js ''error'', JStr (too_large_message (Some m)))])\<rparr>\<rparr>)"
    unfolding eh by (simp add: set_body_def set_status_def)
  show ?thesis using part1 msg pi part3 by blast
qed

text \<open>The theorem at a limit of 4 bytes and chunks of 3, 2 and 1 bytes.\<close>

theorem too_large_413_witness:
  "echoHandler (ex_platform [js ''MAX_BODY_SIZE'' \<mapsto> js ''4''] Map.empty) (ex_config True None)
      (ex_request (js ''POST'') (js ''/'') Map.empty Map.empty
         [StreamData [1, 2, 3], StreamData [4, 5], StreamData [6], StreamEnd])
      (fresh_state [])
    = Resolved
        \<lparr>st_res = \<lparr>res_status = Some 413,
                   res_body = Some (BodyObject [(js ''error'', JStr (js ''Body exceeds max size of 4 bytes''))]),
                   res_type = None, res_headers = []\<rparr>,
         st_log = [], st_histogram = [], st_echo = [], st_sleeps = []\<rparr>"
proof -
  let ?P = "ex_platform [js ''MAX_BODY_SIZE'' \<mapsto> js ''4''] Map.empty"
  let ?req = "ex_request (js ''POST'') (js ''/'') Map.empty Map.empty
         [StreamData [1, 2, 3], StreamData [4, 5], StreamData [6], StreamEnd]"
  have o: "\<not> truthy (overrideResponseBody (ex_config True None))" by (simp add: ex_config_def)
  have s: "body_stream ?P ?req = map StreamData [[1, 2, 3], [4, 5], [6]] @ StreamEnd # []"
    by (simp add: body_stream_example)
  have d: "digits_of 4 = [52]" by (simp add: digits_of.simps)
  from too_large_413[OF o s MAX_BODY_SIZE_example, of "fresh_state []"]
  show ?thesis
    by (auto simp: too_large_message_def number_toString_def d js_def fresh_state_def)
qed

text \<open>
  C1 as stated, for every request, fails: with an override response body configured the
  handler answers a body of 6 bytes at a limit of 4 with the override text, reads
  nothing and assigns no status.
\<close>

theorem too_large_override_counterexample:
  "MAX_BODY_SIZE (ex_platform [js ''MAX_BODY_SIZE'' \<mapsto> js ''4''] Map.empty) = Some 4
   \<and> body_stream (ex_platform [js ''MAX_BODY_SIZE'' \<mapsto> js ''4''] Map.empty)
        (ex_request (js ''POST'') (js ''/'') Map.empty Map.empty
           [StreamData [1, 2, 3, 4, 5, 6], StreamEnd])
      = [StreamData [1, 2, 3, 4, 5, 6], StreamEnd]
   \<and> echoHandler (ex_platform [js ''MAX_BODY_SIZE'' \<mapsto> js ''4''] Map.empty)
        (ex_config True (Some (js ''ok'')))
        (ex_request (js ''POST'') (js ''/'') Map.empty Map.empty
           [StreamData [1, 2, 3, 4, 5, 6], StreamEnd])
        (fresh_state [])
      = Resolved
          \<lparr>st_res = \<lparr>res_status = None, res_body = Some (BodyString (js ''ok'')),
                     res_type = None, res_headers = []\<rparr>,
           st_log = [], st_histogram = [], st_echo = [], st_sleeps = []\<rparr>"
proof -
  have ok: "js ''ok'' \<noteq> []" by (simp add: js_def)
  show ?thesis
    using ok
    by (simp add: MAX_BODY_SIZE_example body_stream_example echoHandler_def ex_config_def
          set_body_def fresh_state_def)
qed

text \<open>
  C2 (as amended). Where no override response body is configured, the (decompressed)
  body stream delivers chunks of a total size within the limit and then ends, and
  decoding the JWT header does not throw: the handler builds one echo object; its
  \<open>body\<close> is the UTF-8 decoding of all the bytes B in order, with every ill-formed
  sequence replaced by U+FFFD, so it is B exactly where B is the UTF-8 encoding of a
  text; its \<open>json\<close> is what \<open>JSON.parse\<close> gives for the body where the content type
  declares JSON and the text parses, and is left out otherwise; the status assigned does
  not depend on whether the text parses.
\<close>

theorem body_echoed:
  assumes o: "\<not> truthy (overrideResponseBody config)"
    and s: "body_stream P req = map StreamData cs @ StreamEnd # rest"
    and l: "within_limit (MAX_BODY_SIZE P) (length (concat cs))"
    and j: "jwt_decode P (last (split_on 32 (ctx_get req (or_empty (jwtHeader config))))) = Inr v"
  shows "\<exists>st' echo. echoHandler P config req st = Resolved st'
      \<and> st_echo st' = st_echo st @ [echo]
      \<and> e_body echo = toString_utf8 (concat cs)
      \<and> (\<forall>t. list_all isScalar t \<and> map unat (concat cs) = utf8_encode t \<longrightarrow> e_body echo = t)
      \<and> e_json echo = (if req_is_json req then JSON_parse P (e_body echo) else None)
      \<and> res_status (st_res st')
          = (case status_override req of None \<Rightarrow> res_status (st_res st) | Some code \<Rightarrow> Some code)"
proof -
  let ?body = "toString_utf8 (concat cs)"
  have rb: "readBody P req = Resolved ?body" by (rule readBody_within[OF s l])
  from echoHandler_echoes[OF o rb j, of st] obtain st1 echo x where
    h: "echoHandler P config req st = Resolved (respond config req ?body echo st1)"
       "st_res st1 = st_res st" "st_echo st1 = st_echo st"
       "echo = (fst (attach_json P config req ?body
                   (attach_env P config (attach_certificate (req_socket req) (build_echo P config req ?body)), st)))
                 \<lparr>e_jwt := x\<rparr>"
    by blast
  have b: "e_body echo = ?body"
    unfolding h(4) by (simp add: attach_json_fst echo0_fields split: option.splits)
  have r: "\<forall>t. list_all isScalar t \<and> map unat (concat cs) = utf8_encode t \<longrightarrow> e_body echo = t"
    unfolding b by (simp add: toString_utf8_def decode_encode)
  have jn: "e_json echo = (if req_is_json req then JSON_parse P (e_body echo) else None)"
    unfolding b unfolding h(4) by (simp add: attach_json_fst echo0_fields split: option.splits)
  show ?thesis
    using h(1) b r jn by (intro exI[where x="respond config req ?body echo st1"] exI[where x=echo])
      (simp add: respond_echo respond_status h(2,3) split: option.splits)
qed

text \<open>The theorem at the body \<open>{"a":1}\<close>, sent in two chunks as JSON.\<close>

theorem body_echoed_witness:
  "map e_body (built_echo (echoHandler (ex_platform Map.empty Map.empty) (ex_config True None)
      ((ex_request (js ''POST'') (js ''/echo'') Map.empty Map.empty
         [StreamData [123, 34, 97], StreamData [34, 58, 49, 125], StreamEnd])\<lparr>req_is_json := True\<rparr>)
      (fresh_state []))) = [[123, 34, 97, 34, 58, 49, 125]]
   \<and> map e_json (built_echo (echoHandler (ex_platform Map.empty Map.empty) (ex_config True None)
      ((ex_request (js ''POST'') (js ''/echo'') Map.empty Map.empty
         [StreamData [123, 34, 97], StreamData [34, 58, 49, 125], StreamEnd])\<lparr>req_is_json := True\<rparr>)
      (fresh_state []))) = [Some (JObj [([97], JNum 1)])]"
proof -
  let ?P = "ex_platform Map.empty Map.empty"
  let ?req = "(ex_request (js ''POST'') (js ''/echo'') Map.empty Map.empty
         [StreamData [123, 34, 97], StreamData [34, 58, 49, 125], StreamEnd])\<lparr>req_is_json := True\<rparr>"
  have o: "\<not> truthy (overrideResponseBody (ex_config True None))" by (simp add: ex_config_def)
  have s: "body_stream ?P ?req = map StreamData [[123, 34, 97], [34, 58, 49, 125]] @ StreamEnd # []"
    by (simp add: body_stream_def ctx_get_def ex_request_def Let_def js_def toLowerCase_def)
  have l: "within_limit (MAX_BODY_SIZE ?P) (length (concat [[123, 34, 97], [34, 58, 49, 125 :: 8 word]]))"
    by (simp add: MAX_BODY_SIZE_default within_limit_def)
  have p: "JSON_parse ?P [123, 34, 97, 34, 58, 49, 125] = Some (JObj [([97], JNum 1)])"
    by (simp add: ex_platform_def ex_JSON_parse_def)
  have q: "req_is_json ?req" by simp
  from body_echoed[OF o s l ex_jwt, of "fresh_state []"]
  show ?thesis using p q
    by (auto simp: built_echo_def fresh_state_def toString_utf8_def)
qed

text \<open>
  C2 as stated fails at a body that is not UTF-8: the single byte 255, well within the
  limit, is echoed as U+FFFD, which is neither that byte nor encoded by it.
\<close>

theorem body_not_utf8_counterexample:
  "within_limit (MAX_BODY_SIZE (ex_platform Map.empty Map.empty)) (length [255 :: 8 word])
   \<and> map e_body (built_echo (echoHandler (ex_platform Map.empty Map.empty) (ex_config True None)
        (ex_request (js ''POST'') (js ''/echo'') Map.empty Map.empty [StreamData [255], StreamEnd])
        (fresh_state []))) = [[65533]]
   \<and> [65533] \<noteq> map unat [255 :: 8 word]
   \<and> utf8_encode [65533] = [239, 191, 189]
   \<and> utf8_encode [65533] \<noteq> map unat [255 :: 8 word]"
proof -
  let ?P = "ex_platform Map.empty Map.empty"
  let ?req = "ex_request (js ''POST'') (js ''/echo'') Map.empty Map.empty [StreamData [255], StreamEnd]"
  have o: "\<not> truthy (overrideResponseBody (ex_config True None))" by (simp add: ex_config_def)
  have l: "within_limit (MAX_BODY_SIZE ?P) (length (concat [[255 :: 8 word]]))"
    by (simp add: MAX_BODY_SIZE_default within_limit_def)
  have s: "body_stream ?P ?req = map StreamData [[255]] @ StreamEnd # []"
    by (simp add: body_stream_example)
  have rb: "readBody ?P ?req = Resolved [65533]"
    using readBody_within[OF s l] by (simp add: toString_utf8_def)
  from echoHandler_echoes[OF o rb ex_jwt, of "fresh_state []"]
  have e: "map e_body (built_echo (echoHandler ?P (ex_config True None) ?req (fresh_state []))) = [[65533]]"
    by (auto simp: built_echo_def respond_echo fresh_state_def attach_json_fst echo0_fields
             split: option.splits)
  have enc: "utf8_encode [65533] = [239, 191, 189]"
    by (simp add: utf8_encode_def utf8_encode_cp_def)
  show ?thesis using l e enc by simp
qed




text \<open>
  C4 (as amended). With \<open>echoBackToClient\<close> false the body the handler leaves is
  settled by three things only. With an override body configured it is the override
  text. Otherwise, where the body read fails it is the \<open>{error: message}\<close> object,
  and where the body is read and \<open>decode\<close> does not throw the handler returns with
  the body \<open>null\<close>, whatever \<open>response_body_only\<close> and the other settings say.
  Where the stream never settles the handler stays pending, and where \<open>decode\<close>
  throws its promise rejects.
\<close>

theorem echo_disabled_body:
  assumes d: "\<not> echoBackToClient config"
  shows "body_of (echoHandler P config req st)
     = (if truthy (overrideResponseBody config)
        then Resolved (Some (BodyString (or_empty (overrideResponseBody config))))
        else (case readBody P req of
                Pending \<Rightarrow> Pending
              | Rejected msg \<Rightarrow> Resolved (Some (BodyObject [(js ''error'', JStr msg)]))
              | Resolved body \<Rightarrow>
                  (if decode_throws P config req
                   then Rejected (projl (jwt_decode P
                          (last (split_on 32 (ctx_get req (or_empty (jwtHeader config)))))))
                   else Resolved (Some BodyNull))))"
proof (cases "truthy (overrideResponseBody config)")
  case True
  then show ?thesis by (simp add: echoHandler_def set_body_def body_of_def)
next
  case False
  show ?thesis
  proof (cases "readBody P req")
    case Pending
    then show ?thesis using False by (simp add: echoHandler_def body_of_def)
  next
    case (Rejected msg)
    then show ?thesis using False
      by (simp add: echoHandler_def set_body_def set_status_def body_of_def)
  next
    case (Resolved body)
    show ?thesis
    proof (cases "decode_throws P config req")
      case True
      then show ?thesis using False Resolved echoHandler_throws[OF False Resolved True, of st]
        by (simp add: body_of_def)
    next
      case t: False
      from echoHandler_responds[OF False Resolved t, of st] obtain st1 echo where
        "echoHandler P config req st = Resolved (respond config req body echo st1)" by blast
      then show ?thesis using False Resolved t d by (simp add: body_of_def respond_body)
    qed
  qed
qed

text \<open>The theorem at a request that asks for its raw body back, and at one whose stream
  does not end.\<close>

theorem echo_disabled_body_witness:
  "body_of (echoHandler (ex_platform Map.empty Map.empty) (ex_config False None)
      (ex_request (js ''POST'') (js ''/'') Map.empty [js ''response_body_only'' \<mapsto> QStr (js ''true'')]
         [StreamData [104, 105], StreamEnd])
      (fresh_state [])) = Resolved (Some BodyNull)
   \<and> body_of (echoHandler (ex_platform Map.empty Map.empty) (ex_config False None)
      (ex_request (js ''POST'') (js ''/'') Map.empty Map.empty [StreamData [104, 105]])
      (fresh_state [])) = Pending"
proof -
  let ?P = "ex_platform Map.empty Map.empty"
  let ?c = "ex_config False None"
  let ?req = "ex_request (js ''POST'') (js ''/'') Map.empty [js ''response_body_only'' \<mapsto> QStr (js ''true'')]
         [StreamData [104, 105], StreamEnd]"
  let ?r2 = "ex_request (js ''POST'') (js ''/'') Map.empty Map.empty [StreamData [104, 105]]"
  have o: "\<not> truthy (overrideResponseBody ?c)" and d: "\<not> echoBackToClient ?c"
    by (simp_all add: ex_config_def)
  have t: "\<not> decode_throws ?P ?c r" for r by (simp add: decode_throws_def ex_config_def)
  have s: "body_stream ?P ?req = map StreamData [[104, 105]] @ StreamEnd # []"
    by (simp add: body_stream_example)
  have l: "within_limit (MAX_BODY_SIZE ?P) (length (concat [[104, 105 :: 8 word]]))"
    by (simp add: MAX_BODY_SIZE_default within_limit_def)
  have rb: "readBody ?P ?req = Resolved (toString_utf8 (concat [[104, 105]]))"
    by (rule readBody_within[OF s l])
  have s2: "body_stream ?P ?r2 = map StreamData [[104, 105]]"
    by (simp add: body_stream_example)
  have 1: "body_of (echoHandler ?P ?c ?req (fresh_state [])) = Resolved (Some BodyNull)"
    using echo_disabled_body[OF d, of ?P ?req "fresh_state []"] o rb t by simp
  have 2: "body_of (echoHandler ?P ?c ?r2 (fresh_state [])) = Pending"
    using echo_disabled_body[OF d, of ?P ?r2 "fresh_state []"] o readBody_pending[OF s2] by simp
  show ?thesis using 1 2 by simp
qed

text \<open>
  C4 as stated fails twice with \<open>echoBackToClient\<close> false: with an override body
  configured the response body is the override text, and a body past the size limit is
  answered with the error object.
\<close>

theorem echo_disabled_counterexample:
  "\<not> echoBackToClient (ex_config False (Some (js ''ok'')))
   \<and> body_of (echoHandler (ex_platform Map.empty Map.empty) (ex_config False (Some (js ''ok'')))
        (ex_request (js ''GET'') (js ''/'') Map.empty Map.empty [StreamEnd]) (fresh_state []))
      = Resolved (Some (BodyString (js ''ok'')))
   \<and> body_of (echoHandler (ex_platform [js ''MAX_BODY_SIZE'' \<mapsto> js ''4''] Map.empty)
        (ex_config False None)
        (ex_request (js ''POST'') (js ''/'') Map.empty Map.empty
           [StreamData [1, 2, 3, 4, 5, 6], StreamEnd]) (fresh_state []))
      = Resolved (Some (BodyObject [(js ''error'', JStr (js ''Body exceeds max size of 4 bytes''))]))"
proof -
  let ?P = "ex_platform [js ''MAX_BODY_SIZE'' \<mapsto> js ''4''] Map.empty"
  let ?req = "ex_request (js ''POST'') (js ''/'') Map.empty Map.empty
           [StreamData [1, 2, 3, 4, 5, 6], StreamEnd]"
  have ok: "js ''ok'' \<noteq> []" by (simp add: js_def)
  have 1: "body_of (echoHandler (ex_platform Map.empty Map.empty) (ex_config False (Some (js ''ok'')))
        (ex_request (js ''GET'') (js ''/'') Map.empty Map.empty [StreamEnd]) (fresh_state []))
      = Resolved (Some (BodyString (js ''ok'')))"
    using ok by (simp add: echoHandler_def ex_config_def set_body_def body_of_def)
  have s: "body_stream ?P ?req = map StreamData [[1, 2, 3, 4, 5, 6]] @ StreamEnd # []"
    by (simp add: body_stream_example)
  have rb: "readBody ?P ?req = Rejected (too_large_message (Some 4))"
    by (rule readBody_too_large[OF s MAX_BODY_SIZE_example]) simp_all
  have m: "too_large_message (Some 4) = js ''Body exceeds max size of 4 bytes''"
    by (simp add: too_large_message_def number_toString_def digits_of.simps js_def)
  have 2: "body_of (echoHandler ?P (ex_config False None) ?req (fresh_state []))
      = Resolved (Some (BodyObject [(js ''error'', JStr (js ''Body exceeds max size of 4 bytes''))]))"
    using rb m by (simp add: echoHandler_def ex_config_def set_body_def set_status_def body_of_def)
  show ?thesis using 1 2 by (simp add: ex_config_def)
qed

text \<open>
  C7 (as amended). For a request the handler echoes with the echo sent back
  (\<open>echoBackToClient\<close> true, no override body configured, the body read,
  \<open>decode\<close> not throwing), the value of \<open>x-set-response-status-code\<close> is the
  header where it is not empty and the query parameter otherwise, and the handler
  returns with the response answered under what \<open>parseInt\<close> makes of that value
  where this is an integer from 100 to 599; with any other value, or none, the response
  is answered under the status found, 200 where none was assigned.
\<close>

theorem status_override_applied:
  assumes e: "echoBackToClient config"
    and o: "\<not> truthy (overrideResponseBody config)"
    and rb: "readBody P req = Resolved body"
    and t: "\<not> decode_throws P config req"
  shows "header_or_query req (js ''x-set-response-status-code'')
           = (if ctx_get req (js ''x-set-response-status-code'') \<noteq> []
              then Some (QStr (ctx_get req (js ''x-set-response-status-code'')))
              else req_query req (js ''x-set-response-status-code''))
       \<and> (\<exists>st'. echoHandler P config req st = Resolved st'
            \<and> response_status (st_res st')
                = (case header_or_query req (js ''x-set-response-status-code'') of
                     None \<Rightarrow> (case res_status (st_res st) of None \<Rightarrow> 200 | Some s \<Rightarrow> s)
                   | Some x \<Rightarrow>
                       (case parseInt (qval_toString x) of
                          None \<Rightarrow> (case res_status (st_res st) of None \<Rightarrow> 200 | Some s \<Rightarrow> s)
                        | Some code \<Rightarrow>
                            if 100 \<le> code \<and> code < 600 then nat code
                            else (case res_status (st_res st) of None \<Rightarrow> 200 | Some s \<Rightarrow> s)))
            \<and> res_status (st_res st')
                = (case header_or_query req (js ''x-set-response-status-code'') of
                     None \<Rightarrow> res_status (st_res st)
                   | Some x \<Rightarrow>
                       (case parseInt (qval_toString x) of
                          None \<Rightarrow> res_status (st_res st)
                        | Some code \<Rightarrow>
                            if 100 \<le> code \<and> code < 600 then Some (nat code)
                            else res_status (st_res st))))"
proof -
  have p: "parseInt [] = None" by (simp add: parseInt_def trimStart_def)
  have q: "\<not> qtruthy (Some x) \<Longrightarrow> parseInt (qval_toString x) = None" for x
    by (cases x) (simp_all add: p)
  have so: "status_override req
      = (case header_or_query req (js ''x-set-response-status-code'') of
           None \<Rightarrow> None
         | Some x \<Rightarrow>
             (case parseInt (qval_toString x) of
                None \<Rightarrow> None
              | Some code \<Rightarrow> if 100 \<le> code \<and> code < 600 then Some (nat code) else None))"
    using q by (auto simp: status_override_def split: option.splits)
  from echoHandler_responds[OF o rb t, of st] obtain st1 echo where
    h: "echoHandler P config req st = Resolved (respond config req body echo st1)"
       "st_res st1 = st_res st"
    by blast
  have 1: "res_status (st_res (respond config req body echo st1))
      = (case status_override req of None \<Rightarrow> res_status (st_res st) | Some code \<Rightarrow> Some code)"
    by (simp add: respond_status h(2) split: option.splits)
  have 2: "response_status (st_res (respond config req body echo st1))
      = (case status_override req of
           None \<Rightarrow> (case res_status (st_res st) of None \<Rightarrow> 200 | Some s \<Rightarrow> s)
         | Some code \<Rightarrow> code)"
    using e by (simp add: respond_response_status h(2) split: option.splits)
  have 3: "header_or_query req (js ''x-set-response-status-code'')
           = (if ctx_get req (js ''x-set-response-status-code'') \<noteq> []
              then Some (QStr (ctx_get req (js ''x-set-response-status-code'')))
              else req_query req (js ''x-set-response-status-code''))"
    by (simp add: header_or_query_def Let_def)
  have 4: "\<exists>st'. echoHandler P config req st = Resolved st'
            \<and> response_status (st_res st')
                = (case header_or_query req (js ''x-set-response-status-code'') of
                     None \<Rightarrow> (case res_status (st_res st) of None \<Rightarrow> 200 | Some s \<Rightarrow> s)
                   | Some x \<Rightarrow>
                       (case parseInt (qval_toString x) of
                          None \<Rightarrow> (case res_status (st_res st) of None \<Rightarrow> 200 | Some s \<Rightarrow> s)
                        | Some code \<Rightarrow>
                            if 100 \<le> code \<and> code < 600 then nat code
                            else (case res_status (st_res st) of None \<Rightarrow> 200 | Some s \<Rightarrow> s)))
            \<and> res_status (st_res st')
                = (case header_or_query req (js ''x-set-response-status-code'') of
                     None \<Rightarrow> res_status (st_res st)
                   | Some x \<Rightarrow>
                       (case parseInt (qval_toString x) of
                          None \<Rightarrow> res_status (st_res st)
                        | Some code \<Rightarrow>
                            if 100 \<le> code \<and> code < 600 then Some (nat code)
                            else res_status (st_res st)))"
    unfolding h(1)
    by (rule exI[of _ "respond config req body echo st1"])
       (simp add: 1 2 so split: option.splits)
  show ?thesis using 3 4 by (rule conjI)
qed

text \<open>The theorem with the header 418 and with the header 999, each beside the query
  parameter 201, which the header shadows.\<close>

theorem status_override_applied_witness:
  "answer_of (echoHandler (ex_platform Map.empty Map.empty) (ex_config True None)
      (ex_request (js ''GET'') (js ''/'') [js ''x-set-response-status-code'' \<mapsto> js ''418'']
         [js ''x-set-response-status-code'' \<mapsto> QStr (js ''201'')] [StreamEnd])
      (fresh_state [])) = Resolved 418
   \<and> answer_of (echoHandler (ex_platform Map.empty Map.empty) (ex_config True None)
      (ex_request (js ''GET'') (js ''/'') [js ''x-set-response-status-code'' \<mapsto> js ''999'']
         [js ''x-set-response-status-code'' \<mapsto> QStr (js ''201'')] [StreamEnd])
      (fresh_state [])) = Resolved 200"
proof -
  let ?P = "ex_platform Map.empty Map.empty"
  let ?c = "ex_config True None"
  let ?q = "[js ''x-set-response-status-code'' \<mapsto> QStr (js ''201'')]"
  let ?r1 = "ex_request (js ''GET'') (js ''/'') [js ''x-set-response-status-code'' \<mapsto> js ''418''] ?q [StreamEnd]"
  let ?r2 = "ex_request (js ''GET'') (js ''/'') [js ''x-set-response-status-code'' \<mapsto> js ''999''] ?q [StreamEnd]"
  have o: "\<not> truthy (overrideResponseBody ?c)" and e: "echoBackToClient ?c"
    by (simp_all add: ex_config_def)
  have t: "\<not> decode_throws ?P ?c r" for r by (simp add: decode_throws_def ex_config_def)
  have l: "within_limit (MAX_BODY_SIZE ?P) (length (concat ([] :: buffer list)))"
    by (simp add: MAX_BODY_SIZE_default within_limit_def)
  have s1: "body_stream ?P ?r1 = map StreamData [] @ StreamEnd # []"
    and s2: "body_stream ?P ?r2 = map StreamData [] @ StreamEnd # []"
    by (simp_all add: body_stream_example_header)
  have n1: "js ''418'' \<noteq> []" and n2: "js ''999'' \<noteq> []" by (simp_all add: js_def)
  have 1: "answer_of (echoHandler ?P ?c ?r1 (fresh_state [])) = Resolved 418"
    using status_override_applied[OF e o readBody_within[OF s1 l] t, of "fresh_state []"] n1
    by (auto simp: ctx_get_example_header parseInt_examples answer_of_def)
  have 2: "answer_of (echoHandler ?P ?c ?r2 (fresh_state [])) = Resolved 200"
    using status_override_applied[OF e o readBody_within[OF s2 l] t, of "fresh_state []"] n2
    by (auto simp: ctx_get_example_header parseInt_examples answer_of_def fresh_state_def)
  show ?thesis using 1 2 by simp
qed

text \<open>
  C7 as stated, for every request, fails: with an override body configured the header
  418 is answered 200, a body past the size limit is answered 413 whatever the header
  says, and with \<open>echoBackToClient\<close> false the header 418 is answered 204, since the
  status is assigned before the body \<open>null\<close>.
\<close>

theorem status_override_bypassed_counterexample:
  "parseInt (js ''418'') = Some 418
   \<and> answer_of (echoHandler (ex_platform Map.empty Map.empty) (ex_config True (Some (js ''ok'')))
      (ex_request (js ''GET'') (js ''/'') [js ''x-set-response-status-code'' \<mapsto> js ''418'']
         Map.empty [StreamEnd])
      (fresh_state [])) = Resolved 200
   \<and> answer_of (echoHandler (ex_platform [js ''MAX_BODY_SIZE'' \<mapsto> js ''4''] Map.empty)
      (ex_config True None)
      (ex_request (js ''POST'') (js ''/'') [js ''x-set-response-status-code'' \<mapsto> js ''418'']
         Map.empty [StreamData [1, 2, 3, 4, 5, 6], StreamEnd])
      (fresh_state [])) = Resolved 413
   \<and> answer_of (echoHandler (ex_platform Map.empty Map.empty) (ex_config False None)
      (ex_request (js ''GET'') (js ''/'') [js ''x-set-response-status-code'' \<mapsto> js ''418'']
         Map.empty [StreamEnd])
      (fresh_state [])) = Resolved 204"
proof -
  let ?Q = "ex_platform Map.empty Map.empty"
  let ?P = "ex_platform [js ''MAX_BODY_SIZE'' \<mapsto> js ''4''] Map.empty"
  let ?rq = "ex_request (js ''GET'') (js ''/'') [js ''x-set-response-status-code'' \<mapsto> js ''418'']
         Map.empty [StreamEnd]"
  let ?req = "ex_request (js ''POST'') (js ''/'') [js ''x-set-response-status-code'' \<mapsto> js ''418'']
         Map.empty [StreamData [1, 2, 3, 4, 5, 6], StreamEnd]"
  have ok: "truthy (overrideResponseBody (ex_config True (Some (js ''ok''))))"
    by (simp add: ex_config_def js_def)
  have 1: "answer_of (echoHandler ?Q (ex_config True (Some (js ''ok''))) ?rq (fresh_state []))
      = Resolved 200"
    using ok
    by (simp add: echoHandler_def answer_of_def response_status_def set_body_def fresh_state_def)
  have o: "\<not> truthy (overrideResponseBody (ex_config b None))" for b by (simp add: ex_config_def)
  have s: "body_stream ?P ?req = map StreamData [[1, 2, 3, 4, 5, 6]] @ StreamEnd # []"
    by (simp add: body_stream_example_header)
  have rb: "readBody ?P ?req = Rejected (too_large_message (Some 4))"
    by (rule readBody_too_large[OF s MAX_BODY_SIZE_example]) simp_all
  have 2: "answer_of (echoHandler ?P (ex_config True None) ?req (fresh_state [])) = Resolved 413"
    using o rb
    by (simp add: echoHandler_def answer_of_def response_status_def set_body_def set_status_def)
  have s0: "body_stream ?Q ?rq = map StreamData [] @ StreamEnd # []"
    by (simp add: body_stream_example_header)
  have l: "within_limit (MAX_BODY_SIZE ?Q) (length (concat ([] :: buffer list)))"
    by (simp add: MAX_BODY_SIZE_default within_limit_def)
  have t: "\<not> decode_throws ?Q (ex_config False None) ?rq"
    by (simp add: decode_throws_def ex_config_def)
  have n: "js ''418'' \<noteq> []" by (simp add: js_def)
  have so: "status_override ?rq = Some 418"
    by (simp add: status_override_def header_or_query_def ctx_get_example_header parseInt_examples
          n Let_def)
  from echoHandler_responds[OF o readBody_within[OF s0 l] t, of "fresh_state []"]
  obtain st1 echo where
    h: "echoHandler ?Q (ex_config False None) ?rq (fresh_state [])
          = Resolved (respond (ex_config False None) ?rq (toString_utf8 (concat [])) echo st1)"
    by blast
  have 3: "answer_of (echoHandler ?Q (ex_config False None) ?rq (fresh_state [])) = Resolved 204"
    unfolding h by (simp add: answer_of_def respond_response_status so ex_config_def)
  show ?thesis using 1 2 3 by (simp add: parseInt_examples)
qed

text \<open>
  C6 (as amended). For a request the handler echoes (no override body configured, the
  body read, \<open>decode\<close> not throwing), the \<open>cookies\<close> of the echo object are what
  \<open>parseCookies\<close> makes of the \<open>Cookie\<close> header, the empty mapping where the
  request has none. Under every key but \<open>__proto__\<close> that is the mapping of the pairs
  that splitting the header on \<open>;\<close> gives (the pieces joined with \<open>;\<close> are the
  header again), each split at its first \<open>=\<close> with key and value trimmed, a later
  pair overriding an earlier one of the same key; a piece gives no pair exactly where it
  holds no \<open>=\<close> or begins with \<open>=\<close>.
\<close>

theorem cookies_echoed:
  assumes o: "\<not> truthy (overrideResponseBody config)"
    and rb: "readBody P req = Resolved body"
    and t: "\<not> decode_throws P config req"
  shows "\<exists>st' echo. echoHandler P config req st = Resolved st'
      \<and> st_echo st' = st_echo st @ [echo]
      \<and> e_cookies echo = parseCookies (Some (ctx_get req (js ''cookie'')))
      \<and> (\<forall>key. key \<noteq> js ''__proto__'' \<longrightarrow>
            e_cookies echo key
              = map_of (rev (List.map_filter cookie_pair (split_on 59 (ctx_get req (js ''cookie''))))) key)
      \<and> join_with 59 (split_on 59 (ctx_get req (js ''cookie''))) = ctx_get req (js ''cookie'')
      \<and> (\<forall>p. (cookie_pair p \<noteq> None) = (61 \<in> set p \<and> takeWhile (\<lambda>c. c \<noteq> 61) p \<noteq> []))
      \<and> (ctx_get req (js ''cookie'') = [] \<longrightarrow> e_cookies echo = Map.empty)"
proof -
  from echoHandler_responds[OF o rb t, of st] obtain st1 echo x where
    h: "echoHandler P config req st = Resolved (respond config req body echo st1)"
       "st_echo st1 = st_echo st"
       "echo = (fst (attach_json P config req body
                   (attach_env P config (attach_certificate (req_socket req) (build_echo P config req body)), st)))
                 \<lparr>e_jwt := x\<rparr>"
    by blast
  have c: "e_cookies echo = parseCookies (Some (ctx_get req (js ''cookie'')))"
    unfolding h(3) by (simp add: attach_json_fst echo0_fields split: option.splits)
  have k: "\<forall>key. key \<noteq> js ''__proto__'' \<longrightarrow>
            e_cookies echo key
              = map_of (rev (List.map_filter cookie_pair (split_on 59 (ctx_get req (js ''cookie''))))) key"
    unfolding c by (simp add: parseCookies_key)
  have p: "\<forall>p. (cookie_pair p \<noteq> None) = (61 \<in> set p \<and> takeWhile (\<lambda>c. c \<noteq> 61) p \<noteq> [])"
    by (simp add: cookie_pair_def)
  have e: "ctx_get req (js ''cookie'') = [] \<longrightarrow> e_cookies echo = Map.empty"
    unfolding c by (simp add: parseCookies_def)
  show ?thesis
    using h(1) c k p e
    by (intro exI[where x="respond config req body echo st1"] exI[where x=echo])
       (simp add: respond_echo h(2) split_on_join)
qed

text \<open>The theorem at the header \<open>session=abc123; theme=dark; flag;=x\<close>: the first
  two pieces are kept, the last two dropped.\<close>

theorem cookies_echoed_witness:
  "map e_cookies (built_echo (echoHandler (ex_platform Map.empty Map.empty) (ex_config True None)
      ((ex_request (js ''GET'') (js ''/'') Map.empty Map.empty [StreamEnd])
         \<lparr>req_headers := [js ''cookie'' \<mapsto> js ''session=abc123; theme=dark; flag;=x'']\<rparr>)
      (fresh_state [])))
   = [[js ''session'' \<mapsto> js ''abc123'', js ''theme'' \<mapsto> js ''dark'']]"
proof -
  let ?P = "ex_platform Map.empty Map.empty"
  let ?c = "ex_config True None"
  let ?h = "js ''session=abc123; theme=dark; flag;=x''"
  let ?req = "(ex_request (js ''GET'') (js ''/'') Map.empty Map.empty [StreamEnd])
         \<lparr>req_headers := [js ''cookie'' \<mapsto> ?h]\<rparr>"
  have o: "\<not> truthy (overrideResponseBody ?c)" by (simp add: ex_config_def)
  have t: "\<not> decode_throws ?P ?c ?req" by (simp add: decode_throws_def ex_config_def)
  have s: "body_stream ?P ?req = map StreamData [] @ StreamEnd # []"
    by (simp add: body_stream_plain[OF ctx_get_cookie(2)]) (simp add: ex_request_def)
  have l: "within_limit (MAX_BODY_SIZE ?P) (length (concat ([] :: buffer list)))"
    by (simp add: MAX_BODY_SIZE_default within_limit_def)
  have g: "ctx_get ?req (js ''cookie'') = ?h" by (rule ctx_get_cookie(1))
  have v: "parseCookies (Some ?h) = [js ''session'' \<mapsto> js ''abc123'', js ''theme'' \<mapsto> js ''dark'']"
    by (simp add: parseCookies_def js_def cookie_step_def assign_property_def trim_def
          isWhiteSpace_def Let_def)
  from cookies_echoed[OF o readBody_within[OF s l] t, of "fresh_state []"]
  obtain st' echo where h: "echoHandler ?P ?c ?req (fresh_state []) = Resolved st'"
    "st_echo st' = st_echo (fresh_state []) @ [echo]"
    "e_cookies echo = parseCookies (Some (ctx_get ?req (js ''cookie'')))"
    by blast
  have "e_cookies echo = [js ''session'' \<mapsto> js ''abc123'', js ''theme'' \<mapsto> js ''dark'']"
    using h(3) unfolding g v .
  then show ?thesis using h(1,2) by (simp add: built_echo_def fresh_state_def)
qed

text \<open>
  C6 as stated fails: the pair \<open>=abc\<close> holds an \<open>=\<close> and is dropped all the same,
  since \<open>indexOf\<close> gives 0 and the loop asks for an index above 0.
\<close>

theorem cookie_leading_equals_counterexample:
  "61 \<in> set (js ''=abc'')
   \<and> split_on 59 (js ''=abc'') = [js ''=abc'']
   \<and> map e_cookies (built_echo (echoHandler (ex_platform Map.empty Map.empty) (ex_config True None)
        ((ex_request (js ''GET'') (js ''/'') Map.empty Map.empty [StreamEnd])
           \<lparr>req_headers := [js ''cookie'' \<mapsto> js ''=abc'']\<rparr>)
        (fresh_state [])))
      = [Map.empty]"
proof -
  let ?P = "ex_platform Map.empty Map.empty"
  let ?c = "ex_config True None"
  let ?req = "(ex_request (js ''GET'') (js ''/'') Map.empty Map.empty [StreamEnd])
         \<lparr>req_headers := [js ''cookie'' \<mapsto> js ''=abc'']\<rparr>"
  have o: "\<not> truthy (overrideResponseBody ?c)" by (simp add: ex_config_def)
  have t: "\<not> decode_throws ?P ?c ?req" by (simp add: decode_throws_def ex_config_def)
  have s: "body_stream ?P ?req = map StreamData [] @ StreamEnd # []"
    by (simp add: body_stream_plain[OF ctx_get_cookie(2)]) (simp add: ex_request_def)
  have l: "within_limit (MAX_BODY_SIZE ?P) (length (concat ([] :: buffer list)))"
    by (simp add: MAX_BODY_SIZE_default within_limit_def)
  have v: "parseCookies (Some (js ''=abc'')) = Map.empty"
    by (simp add: parseCookies_def js_def cookie_step_def Let_def)
  have 1: "61 \<in> set (js ''=abc'')" and 2: "split_on 59 (js ''=abc'') = [js ''=abc'']"
    by (simp_all add: js_def)
  have 3: "map e_cookies (built_echo (echoHandler ?P ?c ?req (fresh_state []))) = [Map.empty]"
    using cookies_of_echoed[OF o readBody_within[OF s l] t, of "fresh_state []"]
    by (simp only: ctx_get_cookie(1) v) (simp add: fresh_state_def)
  show ?thesis using 1 2 3 by (simp only: simp_thms)
qed

text \<open>
  C5 (as amended). For a request the handler echoes (no override body configured, the
  body read, \<open>decode\<close> not throwing), the \<open>headers\<close> of the echo object are, with
  header-case preservation on, the mapping \<open>rebuildHeaders\<close> makes of the raw
  alternating name/value array, and with it off the parsed (lower-case) header object.
  Of an array of name/value pairs \<open>rebuildHeaders\<close> keeps, for every name but
  \<open>__proto__\<close>, the name as it is cased, with the value of its last occurrence in
  that casing only.
\<close>

theorem headers_echoed:
  assumes o: "\<not> truthy (overrideResponseBody config)"
    and rb: "readBody P req = Resolved body"
    and t: "\<not> decode_throws P config req"
  shows "\<exists>st' echo. echoHandler P config req st = Resolved st'
      \<and> st_echo st' = st_echo st @ [echo]
      \<and> e_headers echo
          = (if preserveHeaderCase config then rebuildHeaders (req_rawHeaders req)
             else (\<lambda>k. map_option Some (req_headers req k)))
      \<and> (\<forall>pairs name. req_rawHeaders req = concat (map (\<lambda>(k, v). [k, v]) pairs)
            \<and> name \<noteq> js ''__proto__'' \<longrightarrow>
            rebuildHeaders (req_rawHeaders req) name
              = map_of (rev (map (\<lambda>(k, v). (k, Some v)) pairs)) name)"
proof -
  from echoHandler_responds[OF o rb t, of st] obtain st1 echo x where
    h: "echoHandler P config req st = Resolved (respond config req body echo st1)"
       "st_echo st1 = st_echo st"
       "echo = (fst (attach_json P config req body
                   (attach_env P config (attach_certificate (req_socket req) (build_echo P config req body)), st)))
                 \<lparr>e_jwt := x\<rparr>"
    by blast
  have hd: "e_headers echo
          = (if preserveHeaderCase config then rebuildHeaders (req_rawHeaders req)
             else (\<lambda>k. map_option Some (req_headers req k)))"
    unfolding h(3) by (simp add: attach_json_fst echo0_fields split: option.splits)
  show ?thesis
    using h(1) hd
    by (intro exI[where x="respond config req body echo st1"] exI[where x=echo])
       (simp add: respond_echo h(2) rebuildHeaders_pairs)
qed

text \<open>The theorem at the raw headers \<open>Host\<close>, \<open>X-Foo\<close> and \<open>x-foo\<close>: the two
  casings stay two keys, and there is no key \<open>host\<close>.\<close>

theorem headers_echoed_witness:
  "map (\<lambda>e. (e_headers e (js ''X-Foo''), e_headers e (js ''x-foo''), e_headers e (js ''host'')))
     (built_echo (echoHandler (ex_platform Map.empty Map.empty)
        ((ex_config True None)\<lparr>preserveHeaderCase := True\<rparr>)
        ((ex_request (js ''GET'') (js ''/'') Map.empty Map.empty [StreamEnd])
           \<lparr>req_rawHeaders := [js ''Host'', js ''a'', js ''X-Foo'', js ''b'', js ''x-foo'', js ''c'']\<rparr>)
        (fresh_state [])))
   = [(Some (Some (js ''b'')), Some (Some (js ''c'')), None)]"
proof -
  let ?P = "ex_platform Map.empty Map.empty"
  let ?c = "(ex_config True None)\<lparr>preserveHeaderCase := True\<rparr>"
  let ?pairs = "[(js ''Host'', js ''a''), (js ''X-Foo'', js ''b''), (js ''x-foo'', js ''c'')]"
  let ?req = "(ex_request (js ''GET'') (js ''/'') Map.empty Map.empty [StreamEnd])
           \<lparr>req_rawHeaders := [js ''Host'', js ''a'', js ''X-Foo'', js ''b'', js ''x-foo'', js ''c'']\<rparr>"
  have o: "\<not> truthy (overrideResponseBody ?c)" by (simp add: ex_config_def)
  have t: "\<not> decode_throws ?P ?c ?req" by (simp add: decode_throws_def ex_config_def)
  have g: "ctx_get ?req f = []" for f by (simp add: ctx_get_def ex_request_def Let_def)
  have s: "body_stream ?P ?req = map StreamData [] @ StreamEnd # []"
    by (simp add: body_stream_plain[OF g]) (simp add: ex_request_def)
  have l: "within_limit (MAX_BODY_SIZE ?P) (length (concat ([] :: buffer list)))"
    by (simp add: MAX_BODY_SIZE_default within_limit_def)
  have p: "preserveHeaderCase ?c" by simp
  have r: "req_rawHeaders ?req = concat (map (\<lambda>(k, v). [k, v]) ?pairs)"
    by simp
  have n: "js ''X-Foo'' \<noteq> js ''__proto__''" "js ''x-foo'' \<noteq> js ''__proto__''"
    "js ''host'' \<noteq> js ''__proto__''"
    by (simp_all add: js_def)
  from headers_echoed[OF o readBody_within[OF s l] t, of "fresh_state []"]
  obtain st' echo where h: "echoHandler ?P ?c ?req (fresh_state []) = Resolved st'"
    "st_echo st' = st_echo (fresh_state []) @ [echo]"
    "e_headers echo = (if preserveHeaderCase ?c then rebuildHeaders (req_rawHeaders ?req)
             else (\<lambda>k. map_option Some (req_headers ?req k)))"
    "\<forall>pairs name. req_rawHeaders ?req = concat (map (\<lambda>(k, v). [k, v]) pairs)
            \<and> name \<noteq> js ''__proto__'' \<longrightarrow>
            rebuildHeaders (req_rawHeaders ?req) name
              = map_of (rev (map (\<lambda>(k, v). (k, Some v)) pairs)) name"
    by blast
  have e: "e_headers echo = rebuildHeaders (req_rawHeaders ?req)"
    using h(3) p by (simp only: if_True)
  have v: "rebuildHeaders (req_rawHeaders ?req) name
      = map_of (rev (map (\<lambda>(k, v). (k, Some v)) ?pairs)) name" if "name \<noteq> js ''__proto__''" for name
    using h(4)[rule_format, OF conjI[OF r that]] .
  have "(e_headers echo (js ''X-Foo''), e_headers echo (js ''x-foo''), e_headers echo (js ''host''))
     = (Some (Some (js ''b'')), Some (Some (js ''c'')), None)"
    unfolding e v[OF n(1)] v[OF n(2)] v[OF n(3)] by (simp add: js_def)
  then show ?thesis using h(1,2) by (simp add: built_echo_def fresh_state_def)
qed

text \<open>
  C5 as stated fails for a repeated name: of \<open>A: 1\<close> followed by \<open>A: 2\<close> the mapping
  keeps \<open>A: 2\<close> alone, and the value 1 is nowhere in it.
\<close>

theorem headers_duplicate_counterexample:
  "map e_headers
     (built_echo (echoHandler (ex_platform Map.empty Map.empty)
        ((ex_config True None)\<lparr>preserveHeaderCase := True\<rparr>)
        ((ex_request (js ''GET'') (js ''/'') Map.empty Map.empty [StreamEnd])
           \<lparr>req_rawHeaders := [js ''A'', js ''1'', js ''A'', js ''2'']\<rparr>)
        (fresh_state [])))
   = [[js ''A'' \<mapsto> Some (js ''2'')]]
   \<and> Some (js ''1'') \<notin> ran [js ''A'' \<mapsto> Some (js ''2'')]"
proof -
  let ?P = "ex_platform Map.empty Map.empty"
  let ?c = "(ex_config True None)\<lparr>preserveHeaderCase := True\<rparr>"
  let ?req = "(ex_request (js ''GET'') (js ''/'') Map.empty Map.empty [StreamEnd])
           \<lparr>req_rawHeaders := [js ''A'', js ''1'', js ''A'', js ''2'']\<rparr>"
  have o: "\<not> truthy (overrideResponseBody ?c)" by (simp add: ex_config_def)
  have t: "\<not> decode_throws ?P ?c ?req" by (simp add: decode_throws_def ex_config_def)
  have g: "ctx_get ?req f = []" for f by (simp add: ctx_get_def ex_request_def Let_def)
  have s: "body_stream ?P ?req = map StreamData [] @ StreamEnd # []"
    by (simp add: body_stream_plain[OF g]) (simp add: ex_request_def)
  have l: "within_limit (MAX_BODY_SIZE ?P) (length (concat ([] :: buffer list)))"
    by (simp add: MAX_BODY_SIZE_default within_limit_def)
  have a: "js ''A'' \<noteq> js ''__proto__''" by (simp add: js_def)
  have v: "rebuildHeaders [js ''A'', js ''1'', js ''A'', js ''2''] = [js ''A'' \<mapsto> Some (js ''2'')]"
    using a by (simp add: rebuildHeaders_def assign_property_def)
  have 1: "map e_headers (built_echo (echoHandler ?P ?c ?req (fresh_state [])))
      = [[js ''A'' \<mapsto> Some (js ''2'')]]"
    using headers_of_responds[OF o readBody_within[OF s l] t, of "fresh_state []"]
    by (simp add: v fresh_state_def)
  have 2: "Some (js ''1'') \<notin> ran [js ''A'' \<mapsto> Some (js ''2'')]"
    by (simp add: js_def)
  show ?thesis using 1 2 by simp
qed


text \<open>
  C8. With a CORS allow-origin value configured, an \<open>OPTIONS\<close> request is answered at
  once: the status is 204, the CORS headers configured are set, in their order, and
  nothing else of the state changes: no body is assigned, no echo object is built, no
  line is logged and no duration is observed.
\<close>

theorem cors_preflight:
  assumes c: "truthy (CORS_ORIGIN app)"
    and m: "req_method req = js ''OPTIONS''"
  shows "app_callback P app ms elapsed req st
     = Resolved (st\<lparr>st_res := (st_res st)
         \<lparr>res_status := Some 204,
          res_headers :=
            res_headers (st_res st)
            @ [(js ''Access-Control-Allow-Origin'', or_empty (CORS_ORIGIN app))]
            @ (if truthy (CORS_METHODS app)
               then [(js ''Access-Control-Allow-Methods'', or_empty (CORS_METHODS app))] else [])
            @ (if truthy (CORS_HEADERS app)
               then [(js ''Access-Control-Allow-Headers'', or_empty (CORS_HEADERS app))] else [])
            @ (if truthy (CORS_CREDENTIALS app)
               then [(js ''Access-Control-Allow-Credentials'', or_empty (CORS_CREDENTIALS app))]
               else [])\<rparr>\<rparr>)"
proof -
  have "app_callback P app ms elapsed req st = Resolved (set_status 204 (cors_headers app st))"
    using c m by (simp add: app_callback_def cors_middleware_def)
  then show ?thesis
    by (simp add: set_status_def cors_headers_eq)
qed

text \<open>The theorem at an \<open>OPTIONS\<close> request with a body, served by the application
  made with the origin \<open>*\<close>, the access log on and the metrics on.\<close>

theorem cors_preflight_witness:
  "serve (ex_platform [js ''CORS_ALLOW_ORIGIN'' \<mapsto> js ''*'', js ''PROMETHEUS_ENABLED'' \<mapsto> js ''true''] Map.empty)
     5 7 (ex_request (js ''OPTIONS'') (js ''/x'') Map.empty Map.empty [StreamData [1], StreamEnd])
     (fresh_state [])
   = Resolved
       \<lparr>st_res = \<lparr>res_status = Some 204, res_body = None, res_type = None,
                  res_headers = [(js ''Access-Control-Allow-Origin'', js ''*'')]\<rparr>,
        st_log = [], st_histogram = [], st_echo = [], st_sleeps = []\<rparr>"
proof -
  let ?P = "ex_platform [js ''CORS_ALLOW_ORIGIN'' \<mapsto> js ''*'', js ''PROMETHEUS_ENABLED'' \<mapsto> js ''true''] Map.empty"
  let ?req = "ex_request (js ''OPTIONS'') (js ''/x'') Map.empty Map.empty [StreamData [1], StreamEnd]"
  obtain app where a: "createApp ?P = Resolved app" "CORS_ORIGIN app = Some (js ''*'')"
    "CORS_METHODS app = None" "CORS_HEADERS app = None" "CORS_CREDENTIALS app = None"
    using createApp_cors_example by simp
  have c: "truthy (CORS_ORIGIN app)" using a(2) by (simp add: js_def)
  have m: "req_method ?req = js ''OPTIONS''" by (simp add: ex_request_def)
  show ?thesis
    using cors_preflight[OF c m, of ?P 5 7 "fresh_state []"] a
    by (simp add: serve_def fresh_state_def)
qed

text \<open>
  C9 (as amended). With the metrics enabled, a \<open>GET\<close> request for the scrape path is
  answered by the scrape endpoint (the registry's text as body, its content type as
  header), the histogram is as it was and no echo object is built. Any other request
  that passes through the metrics middleware (it is not a preflight the CORS middleware
  answers) and whose handler returns is answered and has added exactly one observation
  to the histogram, of the measured duration, labelled \<open>path\<close> with the request's
  path where \<open>PROMETHEUS_WITH_PATH\<close> is \<open>true\<close>, \<open>method\<close> with its method where
  \<open>PROMETHEUS_WITH_METHOD\<close> is unset or \<open>true\<close>, and \<open>status\<close> with the status
  read off the response where \<open>PROMETHEUS_WITH_STATUS\<close> is unset or \<open>true\<close>, in
  this order and with no other label. Where the handler does not return, the stack
  returns nothing and the histogram is as it was.
\<close>

theorem metrics_observation:
  assumes e: "PROMETHEUS_ENABLED app"
  shows "(req_path req = PROMETHEUS_PATH app \<and> req_method req = js ''GET'' \<longrightarrow>
            (\<exists>st'. app_callback P app ms elapsed req st = Resolved st'
               \<and> st_histogram st' = st_histogram st
               \<and> res_body (st_res st') = Some (BodyString (register_metrics P (st_histogram st)))
               \<and> (js ''Content-Type'', register_contentType P) \<in> set (res_headers (st_res st'))
               \<and> st_echo st' = st_echo st))
       \<and> (\<not> (req_path req = PROMETHEUS_PATH app \<and> req_method req = js ''GET'')
            \<and> \<not> (truthy (CORS_ORIGIN app) \<and> req_method req = js ''OPTIONS'')
            \<and> handler_returns P (echo_options app) req \<longrightarrow>
            (\<exists>st'. app_callback P app ms elapsed req st = Resolved st'
               \<and> st_histogram st'
                   = st_histogram st
                     @ [((if process_env P (js ''PROMETHEUS_WITH_PATH'') = Some (js ''true'')
                          then [(js ''path'', req_path req)] else [])
                         @ (if process_env P (js ''PROMETHEUS_WITH_METHOD'') = None
                               \<or> process_env P (js ''PROMETHEUS_WITH_METHOD'') = Some (js ''true'')
                            then [(js ''method'', req_method req)] else [])
                         @ (if process_env P (js ''PROMETHEUS_WITH_STATUS'') = None
                               \<or> process_env P (js ''PROMETHEUS_WITH_STATUS'') = Some (js ''true'')
                            then [(js ''status'',
                                   number_toString (Some (int (ctx_status P (st_res st')))))]
                            else []),
                         elapsed)]))
       \<and> (\<not> (req_path req = PROMETHEUS_PATH app \<and> req_method req = js ''GET'')
            \<and> \<not> (truthy (CORS_ORIGIN app) \<and> req_method req = js ''OPTIONS'')
            \<and> \<not> handler_returns P (echo_options app) req \<longrightarrow>
            (\<forall>st'. app_callback P app ms elapsed req st \<noteq> Resolved st')
            \<and> histogram_after (st_histogram st) (app_callback P app ms elapsed req st)
                = st_histogram st)"
proof (intro conjI impI)
  assume "req_path req = PROMETHEUS_PATH app \<and> req_method req = js ''GET''"
  then show "\<exists>st'. app_callback P app ms elapsed req st = Resolved st'
               \<and> st_histogram st' = st_histogram st
               \<and> res_body (st_res st') = Some (BodyString (register_metrics P (st_histogram st)))
               \<and> (js ''Content-Type'', register_contentType P) \<in> set (res_headers (st_res st'))
               \<and> st_echo st' = st_echo st"
    using scrape_served[OF e, of req P ms elapsed st] by blast
next
  assume a: "\<not> (req_path req = PROMETHEUS_PATH app \<and> req_method req = js ''GET'')
            \<and> \<not> (truthy (CORS_ORIGIN app) \<and> req_method req = js ''OPTIONS'')
            \<and> handler_returns P (echo_options app) req"
  from observed_when_returned[OF e a[THEN conjunct1] a[THEN conjunct2, THEN conjunct1]
      a[THEN conjunct2, THEN conjunct2], of ms elapsed st]
  show "\<exists>st'. app_callback P app ms elapsed req st = Resolved st'
               \<and> st_histogram st'
                   = st_histogram st
                     @ [((if process_env P (js ''PROMETHEUS_WITH_PATH'') = Some (js ''true'')
                          then [(js ''path'', req_path req)] else [])
                         @ (if process_env P (js ''PROMETHEUS_WITH_METHOD'') = None
                               \<or> process_env P (js ''PROMETHEUS_WITH_METHOD'') = Some (js ''true'')
                            then [(js ''method'', req_method req)] else [])
                         @ (if process_env P (js ''PROMETHEUS_WITH_STATUS'') = None
                               \<or> process_env P (js ''PROMETHEUS_WITH_STATUS'') = Some (js ''true'')
                            then [(js ''status'',
                                   number_toString (Some (int (ctx_status P (st_res st')))))]
                            else []),
                         elapsed)]"
    unfolding labels_of_env .
next
  assume a: "\<not> (req_path req = PROMETHEUS_PATH app \<and> req_method req = js ''GET'')
            \<and> \<not> (truthy (CORS_ORIGIN app) \<and> req_method req = js ''OPTIONS'')
            \<and> \<not> handler_returns P (echo_options app) req"
  note u = unobserved_when_not_returned[OF e a[THEN conjunct1] a[THEN conjunct2, THEN conjunct1]
      a[THEN conjunct2, THEN conjunct2], of ms elapsed st]
  show "\<forall>st'. app_callback P app ms elapsed req st \<noteq> Resolved st'"
    using u by blast
  show "histogram_after (st_histogram st) (app_callback P app ms elapsed req st) = st_histogram st"
    using u by (cases "app_callback P app ms elapsed req st") (auto simp: histogram_after_def)
qed

text \<open>The theorem at a \<open>GET\<close> and at a \<open>POST\<close> for \<open>/metrics\<close>, the histogram
  holding one observation before: the first leaves it, the second adds one under
  \<open>method\<close> and \<open>status\<close>; and at a \<open>POST\<close> whose body stream does not end,
  which leaves it.\<close>

theorem metrics_observation_witness:
  "(\<exists>st'. serve (ex_platform [js ''CORS_ALLOW_ORIGIN'' \<mapsto> js ''*'', js ''PROMETHEUS_ENABLED'' \<mapsto> js ''true''] Map.empty)
       5 7 (ex_request (js ''GET'') (js ''/metrics'') Map.empty Map.empty [StreamEnd])
       (fresh_state [([], 3)]) = Resolved st'
      \<and> st_histogram st' = [([], 3)]
      \<and> res_body (st_res st') = Some (BodyString (js ''# metrics''))
      \<and> st_echo st' = [])
   \<and> (\<exists>st'. serve (ex_platform [js ''CORS_ALLOW_ORIGIN'' \<mapsto> js ''*'', js ''PROMETHEUS_ENABLED'' \<mapsto> js ''true''] Map.empty)
       5 7 (ex_request (js ''POST'') (js ''/metrics'') Map.empty Map.empty [StreamEnd])
       (fresh_state [([], 3)]) = Resolved st'
      \<and> st_histogram st' = [([], 3), ([(js ''method'', js ''POST''), (js ''status'', js ''200'')], 7)])
   \<and> histogram_after [([], 3)]
        (serve (ex_platform [js ''CORS_ALLOW_ORIGIN'' \<mapsto> js ''*'', js ''PROMETHEUS_ENABLED'' \<mapsto> js ''true''] Map.empty)
          5 7 (ex_request (js ''POST'') (js ''/metrics'') Map.empty Map.empty [StreamData [1]])
          (fresh_state [([], 3)])) = [([], 3)]"
proof -
  let ?P = "ex_platform [js ''CORS_ALLOW_ORIGIN'' \<mapsto> js ''*'', js ''PROMETHEUS_ENABLED'' \<mapsto> js ''true''] Map.empty"
  let ?r1 = "ex_request (js ''GET'') (js ''/metrics'') Map.empty Map.empty [StreamEnd]"
  let ?r2 = "ex_request (js ''POST'') (js ''/metrics'') Map.empty Map.empty [StreamEnd]"
  let ?r3 = "ex_request (js ''POST'') (js ''/metrics'') Map.empty Map.empty [StreamData [1]]"
  let ?st = "fresh_state [([], 3)]"
  obtain app where a: "createApp ?P = Resolved app" "PROMETHEUS_ENABLED app"
    "PROMETHEUS_PATH app = js ''/metrics''" "CORS_ORIGIN app = Some (js ''*'')"
    "echo_options app = ex_config True None\<lparr>logger_enabled := True\<rparr>"
    using createApp_cors_example by (simp add: ex_config_def)
  have g: "req_path ?r1 = PROMETHEUS_PATH app \<and> req_method ?r1 = js ''GET''"
    using a(3) by (simp add: ex_request_def)
  have n: "\<not> (req_path (ex_request (js ''POST'') p Map.empty Map.empty es) = PROMETHEUS_PATH app
               \<and> req_method (ex_request (js ''POST'') p Map.empty Map.empty es) = js ''GET'')"
    and c: "\<not> (truthy (CORS_ORIGIN app) \<and> req_method (ex_request (js ''POST'') p Map.empty Map.empty es) = js ''OPTIONS'')"
    for p es
    by (simp_all add: ex_request_def js_def)
  have o: "\<not> truthy (overrideResponseBody (echo_options app))" by (simp add: a(5) ex_config_def)
  have t: "\<not> decode_throws ?P (echo_options app) r" for r
    by (simp add: decode_throws_def a(5) ex_config_def)
  have s: "body_stream ?P ?r2 = map StreamData [] @ StreamEnd # []"
    by (simp add: body_stream_example)
  have l: "within_limit (MAX_BODY_SIZE ?P) (length (concat ([] :: buffer list)))"
    by (simp add: MAX_BODY_SIZE_def env_or_def ex_platform_def js_def parseInt_def trimStart_def
          isWhiteSpace_def isDigit_def Let_def within_limit_def)
  have rb: "readBody ?P ?r2 = Resolved (toString_utf8 (concat []))"
    by (rule readBody_within[OF s l])
  have ret: "handler_returns ?P (echo_options app) ?r2"
    using rb t by (simp add: handler_returns_def)
  have s3: "body_stream ?P ?r3 = map StreamData [[1]]"
    by (simp add: body_stream_example)
  have nret: "\<not> handler_returns ?P (echo_options app) ?r3"
    using o readBody_pending[OF s3] by (simp add: handler_returns_def)
  have m: "register_metrics ?P h = js ''# metrics''" for h by (simp add: ex_platform_def)
  have env: "process_env ?P (js ''PROMETHEUS_WITH_PATH'') = None"
    "process_env ?P (js ''PROMETHEUS_WITH_METHOD'') = None"
    "process_env ?P (js ''PROMETHEUS_WITH_STATUS'') = None"
    by (simp_all add: ex_platform_def js_def)
  have so: "status_override ?r2 = None" by (rule status_override_none_example)
  from metrics_observation[OF a(2), of ?r1 ?P 5 7 ?st] g
  have 1: "\<exists>st'. serve ?P 5 7 ?r1 ?st = Resolved st'
      \<and> st_histogram st' = [([], 3)]
      \<and> res_body (st_res st') = Some (BodyString (js ''# metrics''))
      \<and> st_echo st' = []"
    by (auto simp: serve_def a(1) m fresh_state_def)
  from metrics_observation[OF a(2), of ?r2 ?P 5 7 ?st, THEN conjunct2, THEN conjunct1, rule_format,
      OF conjI[OF n conjI[OF c ret]]]
  obtain st' where h: "app_callback ?P app 5 7 ?r2 ?st = Resolved st'"
    "st_histogram st' = st_histogram ?st
       @ [([(js ''method'', req_method ?r2),
            (js ''status'', number_toString (Some (int (ctx_status ?P (st_res st')))))], 7)]"
    unfolding env by auto
  from echoHandler_responds[OF o rb t, of "if truthy (CORS_ORIGIN app) then cors_headers app ?st else ?st"]
  obtain st1 echo where
    e3: "echoHandler ?P (echo_options app) ?r2 (if truthy (CORS_ORIGIN app) then cors_headers app ?st else ?st)
          = Resolved (respond (echo_options app) ?r2 (toString_utf8 (concat [])) echo st1)"
      "st_res st1 = st_res (if truthy (CORS_ORIGIN app) then cors_headers app ?st else ?st)"
    by blast
  from served_when_returned[OF a(2) n c e3(1), of 5 7] h(1)
  have "st_res st' = st_res (respond (echo_options app) ?r2 (toString_utf8 (concat [])) echo st1)"
    by simp
  then have "res_status (st_res st') = None"
    by (simp add: respond_status so e3(2) cors_headers_fields fresh_state_def)
  then have cs: "ctx_status ?P (st_res st') = 200"
    by (simp add: ex_platform_def ex_ctx_status_def)
  have d: "number_toString (Some 200) = js ''200''"
    by (simp add: number_toString_def digits_of.simps js_def)
  have 2: "\<exists>st'. serve ?P 5 7 ?r2 ?st = Resolved st'
      \<and> st_histogram st' = [([], 3), ([(js ''method'', js ''POST''), (js ''status'', js ''200'')], 7)]"
    using h unfolding cs by (simp add: serve_def a(1) d fresh_state_def ex_request_def)
  from metrics_observation[OF a(2), of ?r3 ?P 5 7 ?st, THEN conjunct2, THEN conjunct2, rule_format,
      OF conjI[OF n conjI[OF c nret]]]
  have 3: "histogram_after [([], 3)] (serve ?P 5 7 ?r3 ?st) = [([], 3)]"
    by (simp add: serve_def a(1) fresh_state_def)
  show ?thesis using 1 2 3 by (simp only: simp_thms)
qed

text \<open>
  C9 as stated fails: a request that passes through the metrics middleware and whose
  JWT header makes \<open>decode\<close> throw is not observed, and neither is one whose body
  stream never ends; \<open>end(labels)\<close> stands after \<open>await next()\<close>, outside any
  \<open>finally\<close>.
\<close>

theorem metrics_unobserved_counterexample:
  "serve ((ex_platform [js ''PROMETHEUS_ENABLED'' \<mapsto> js ''true'', js ''JWT_HEADER'' \<mapsto> js ''authorization''] Map.empty)
            \<lparr>jwt_decode := (\<lambda>t. Inl (js ''bad''))\<rparr>)
     5 7 ((ex_request (js ''GET'') (js ''/x'') Map.empty Map.empty [StreamEnd])
            \<lparr>req_headers := [js ''authorization'' \<mapsto> js ''Bearer x'']\<rparr>)
     (fresh_state [([], 3)])
   = Rejected (js ''bad'')
   \<and> histogram_after [([], 3)]
       (serve ((ex_platform [js ''PROMETHEUS_ENABLED'' \<mapsto> js ''true'', js ''JWT_HEADER'' \<mapsto> js ''authorization''] Map.empty)
            \<lparr>jwt_decode := (\<lambda>t. Inl (js ''bad''))\<rparr>)
         5 7 ((ex_request (js ''GET'') (js ''/x'') Map.empty Map.empty [StreamEnd])
            \<lparr>req_headers := [js ''authorization'' \<mapsto> js ''Bearer x'']\<rparr>)
         (fresh_state [([], 3)]))
     = [([], 3)]
   \<and> serve (ex_platform [js ''CORS_ALLOW_ORIGIN'' \<mapsto> js ''*'', js ''PROMETHEUS_ENABLED'' \<mapsto> js ''true''] Map.empty)
       5 7 (ex_request (js ''POST'') (js ''/x'') Map.empty Map.empty [StreamData [1]])
       (fresh_state [([], 3)])
     = Pending"
proof -
  let ?E = "ex_platform [js ''PROMETHEUS_ENABLED'' \<mapsto> js ''true'', js ''JWT_HEADER'' \<mapsto> js ''authorization''] Map.empty"
  let ?T = "?E\<lparr>jwt_decode := (\<lambda>t. Inl (js ''bad''))\<rparr>"
  let ?req = "(ex_request (js ''GET'') (js ''/x'') Map.empty Map.empty [StreamEnd])
            \<lparr>req_headers := [js ''authorization'' \<mapsto> js ''Bearer x'']\<rparr>"
  let ?P = "ex_platform [js ''CORS_ALLOW_ORIGIN'' \<mapsto> js ''*'', js ''PROMETHEUS_ENABLED'' \<mapsto> js ''true''] Map.empty"
  let ?r3 = "ex_request (js ''POST'') (js ''/x'') Map.empty Map.empty [StreamData [1]]"
  let ?st = "fresh_state [([], 3)]"
  obtain app where a: "createApp ?T = Resolved app" "PROMETHEUS_ENABLED app"
    "PROMETHEUS_PATH app = js ''/metrics''" "CORS_ORIGIN app = None" "\<not> DISABLE_REQUEST_LOGS app"
    "echo_options app = (ex_config True None)\<lparr>logger_enabled := True, jwtHeader := Some (js ''authorization'')\<rparr>"
    using createApp_jwt_example by (simp add: ex_config_def)
  have o: "\<not> truthy (overrideResponseBody (echo_options app))" by (simp add: a(6) ex_config_def)
  have ce: "ctx_get ?req (js ''content-encoding'') = []"
    and tk: "ctx_get ?req (js ''authorization'') = js ''Bearer x''"
    by (simp_all add: ctx_get_authorization)
  have s: "body_stream ?E ?req = map StreamData [] @ StreamEnd # []"
    by (simp add: body_stream_plain[OF ce]) (simp add: ex_request_def)
  have l: "within_limit (MAX_BODY_SIZE ?E) (length (concat ([] :: buffer list)))"
    by (simp add: MAX_BODY_SIZE_def env_or_def ex_platform_def js_def parseInt_def trimStart_def
          isWhiteSpace_def isDigit_def Let_def within_limit_def)
  have rb: "readBody ?T ?req = Resolved (toString_utf8 (concat []))"
    using readBody_within[OF s l] by (simp only: readBody_jwt_decode)
  have jh: "truthy (jwtHeader (echo_options app))"
    "or_empty (jwtHeader (echo_options app)) = js ''authorization''"
    by (simp_all add: a(6) js_def)
  have ne: "js ''Bearer x'' \<noteq> []" by (simp add: js_def)
  have tT: "decode_throws ?T (echo_options app) ?req"
    unfolding decode_throws_def jh(2) tk using jh(1) ne by simp
  have e: "echoHandler ?T (echo_options app) ?req s' = Rejected (js ''bad'')" for s'
    using echoHandler_throws[OF o rb tT, of s'] by simp
  have np: "req_path ?req \<noteq> js ''/metrics''" by (simp add: ex_request_def js_def)
  have 1: "serve ?T 5 7 ?req ?st = Rejected (js ''bad'')"
    using np
    by (simp add: serve_def a(1,2,3,4,5) app_callback_def access_log_middleware_def
          prometheus_middleware_def metricsMiddleware_def e)
  have 2: "histogram_after [([], 3)] (serve ?T 5 7 ?req ?st) = [([], 3)]"
    unfolding 1 by (simp add: histogram_after_def)
  obtain app2 where b: "createApp ?P = Resolved app2" "PROMETHEUS_ENABLED app2"
    "PROMETHEUS_PATH app2 = js ''/metrics''" "CORS_ORIGIN app2 = Some (js ''*'')"
    "\<not> DISABLE_REQUEST_LOGS app2"
    "echo_options app2 = ex_config True None\<lparr>logger_enabled := True\<rparr>"
    using createApp_cors_example by (simp add: ex_config_def)
  have o2: "\<not> truthy (overrideResponseBody (echo_options app2))" by (simp add: b(6) ex_config_def)
  have s3: "body_stream ?P ?r3 = map StreamData [[1]]"
    by (simp add: body_stream_example)
  have e2: "echoHandler ?P (echo_options app2) ?r3 s' = Pending" for s'
    using o2 readBody_pending[OF s3] by (simp add: echoHandler_def)
  have nm: "req_method ?r3 \<noteq> js ''OPTIONS''" "req_path ?r3 \<noteq> js ''/metrics''"
    by (simp_all add: ex_request_def js_def)
  have co: "truthy (CORS_ORIGIN app2)" by (simp add: b(4) js_def)
  have 3: "serve ?P 5 7 ?r3 ?st = Pending"
    using nm co
    by (simp add: serve_def b(1,2,3,5) app_callback_def cors_middleware_def
          access_log_middleware_def prometheus_middleware_def metricsMiddleware_def e2)
  show ?thesis using 1 2 3 by (simp only: simp_thms)
qed

text \<open>
  C10. Where the override file path is set and the file exists and is empty, the
  application is created with the override body \<open>""\<close>, which is falsy: the handler
  does on every request and state what it does with no override configured, and a
  request whose body stream ends within the size limit (the JWT decoding returning) is
  echoed: one echo object is built with the body read, and the response body is the
  echo, the raw body or \<open>null\<close> as the other settings say, not the override text.
\<close>

theorem empty_override_file_echoes:
  assumes p: "process_env P (js ''OVERRIDE_RESPONSE_BODY_FILE_PATH'') = Some path"
    and n: "path \<noteq> []"
    and f: "fs P path = Some (File [])"
    and a: "createApp P = Resolved app"
  shows "overrideResponseBody (echo_options app) = Some []
       \<and> echoHandler P (echo_options app) req st
           = echoHandler P ((echo_options app)\<lparr>overrideResponseBody := None\<rparr>) req st
       \<and> (\<forall>cs rest v.
            body_stream P req = map StreamData cs @ StreamEnd # rest
            \<and> within_limit (MAX_BODY_SIZE P) (length (concat cs))
            \<and> jwt_decode P (last (split_on 32 (ctx_get req (or_empty (process_env P (js ''JWT_HEADER''))))))
                = Inr v
            \<longrightarrow> (\<exists>st' echo. echoHandler P (echo_options app) req st = Resolved st'
                   \<and> st_echo st' = st_echo st @ [echo]
                   \<and> e_body echo = toString_utf8 (concat cs)
                   \<and> res_body (st_res st')
                       = Some (if \<not> echoBackToClient (echo_options app) then BodyNull
                               else if req_query req (js ''response_body_only'') = Some (QStr (js ''true''))
                               then BodyString (toString_utf8 (concat cs)) else BodyEcho echo)))"
proof -
  have ob: "overrideBody P = Resolved (Some [])"
    using p n f by (simp add: overrideBody_def Let_def toString_utf8_def)
  then have 1: "overrideResponseBody (echo_options app) = Some []"
    using createApp_override(1)[OF a] by simp
  then have o: "\<not> truthy (overrideResponseBody (echo_options app))" by simp
  have 2: "echoHandler P (echo_options app) req st
           = echoHandler P ((echo_options app)\<lparr>overrideResponseBody := None\<rparr>) req st"
    by (rule echoHandler_override_falsy[OF o])
  have 3: "\<exists>st' echo. echoHandler P (echo_options app) req st = Resolved st'
                   \<and> st_echo st' = st_echo st @ [echo]
                   \<and> e_body echo = toString_utf8 (concat cs)
                   \<and> res_body (st_res st')
                       = Some (if \<not> echoBackToClient (echo_options app) then BodyNull
                               else if req_query req (js ''response_body_only'') = Some (QStr (js ''true''))
                               then BodyString (toString_utf8 (concat cs)) else BodyEcho echo)"
    if s: "body_stream P req = map StreamData cs @ StreamEnd # rest"
      and l: "within_limit (MAX_BODY_SIZE P) (length (concat cs))"
      and j: "jwt_decode P (last (split_on 32 (ctx_get req (or_empty (process_env P (js ''JWT_HEADER'')))))) = Inr v"
    for cs rest v
  proof -
    let ?body = "toString_utf8 (concat cs)"
    have j': "jwt_decode P (last (split_on 32 (ctx_get req (or_empty (jwtHeader (echo_options app)))))) = Inr v"
      using j createApp_override(2)[OF a] by simp
    from echoHandler_echoes[OF o readBody_within[OF s l] j', of st] obtain st1 echo x where
      h: "echoHandler P (echo_options app) req st = Resolved (respond (echo_options app) req ?body echo st1)"
         "st_echo st1 = st_echo st"
         "echo = (fst (attach_json P (echo_options app) req ?body
                   (attach_env P (echo_options app) (attach_certificate (req_socket req)
                      (build_echo P (echo_options app) req ?body)), st)))
                 \<lparr>e_jwt := x\<rparr>"
      by blast
    have b: "e_body echo = ?body"
      unfolding h(3) by (simp add: attach_json_fst echo0_fields split: option.splits)
    show ?thesis
      using h(1) b
      by (intro exI[where x="respond (echo_options app) req ?body echo st1"] exI[where x=echo])
         (simp add: respond_echo respond_body h(2))
  qed
  show ?thesis using 1 2 3 by blast
qed

text \<open>The theorem at the empty file \<open>/o.txt\<close> and a request with the body \<open>hi\<close>.\<close>

theorem empty_override_file_witness:
  "\<exists>app. createApp (ex_platform [js ''OVERRIDE_RESPONSE_BODY_FILE_PATH'' \<mapsto> js ''/o.txt'']
                      [js ''/o.txt'' \<mapsto> File []]) = Resolved app
     \<and> overrideResponseBody (echo_options app) = Some []
     \<and> map e_body (built_echo (echoHandler
          (ex_platform [js ''OVERRIDE_RESPONSE_BODY_FILE_PATH'' \<mapsto> js ''/o.txt'']
                      [js ''/o.txt'' \<mapsto> File []])
          (echo_options app)
          (ex_request (js ''POST'') (js ''/'') Map.empty Map.empty [StreamData [104, 105], StreamEnd])
          (fresh_state []))) = [[104, 105]]"
proof -
  let ?P = "ex_platform [js ''OVERRIDE_RESPONSE_BODY_FILE_PATH'' \<mapsto> js ''/o.txt''] [js ''/o.txt'' \<mapsto> File []]"
  let ?req = "ex_request (js ''POST'') (js ''/'') Map.empty Map.empty [StreamData [104, 105], StreamEnd]"
  obtain app where a: "createApp ?P = Resolved app"
    using createApp_override_example by blast
  have p: "process_env ?P (js ''OVERRIDE_RESPONSE_BODY_FILE_PATH'') = Some (js ''/o.txt'')"
    by (simp add: ex_platform_def)
  have n: "js ''/o.txt'' \<noteq> []" by (simp add: js_def)
  have f: "fs ?P (js ''/o.txt'') = Some (File [])" by (simp add: ex_platform_def)
  have s: "body_stream ?P ?req = map StreamData [[104, 105]] @ StreamEnd # []"
    by (simp add: body_stream_example)
  have l: "within_limit (MAX_BODY_SIZE ?P) (length (concat [[104, 105 :: 8 word]]))"
    by (simp add: MAX_BODY_SIZE_def env_or_def ex_platform_def js_def parseInt_def trimStart_def
          isWhiteSpace_def isDigit_def Let_def within_limit_def)
  have jw: "jwt_decode ?P (last (split_on 32 (ctx_get ?req (or_empty (process_env ?P (js ''JWT_HEADER''))))))
      = Inr JNull"
    by (rule ex_jwt)
  note T = empty_override_file_echoes[OF p n f a, of ?req "fresh_state []"]
  have 1: "overrideResponseBody (echo_options app) = Some []" by (rule T[THEN conjunct1])
  obtain st' echo where h: "echoHandler ?P (echo_options app) ?req (fresh_state []) = Resolved st'"
      "st_echo st' = st_echo (fresh_state []) @ [echo]"
      "e_body echo = toString_utf8 (concat [[104, 105]])"
    using T[THEN conjunct2, THEN conjunct2, rule_format, OF conjI[OF s conjI[OF l jw]]]
    by (elim exE conjE)
  then have 2: "map e_body (built_echo (echoHandler ?P (echo_options app) ?req (fresh_state []))) = [[104, 105]]"
    by (auto simp: built_echo_def fresh_state_def toString_utf8_def)
  show ?thesis
    by (rule exI[of _ app]) (simp only: a 1 2)
qed

end
